theory Spec2Isabelle
  imports Main
begin

section \<open>STOMP frames\<close>

text \<open>
  Modelled from the spec: the declarations of \<^verbatim>\<open>stomp-frame.h\<close>, against which the STOMP
  client is written and which is not among the sources. The three enumerations and the
  frame value have the members the client names and the ones the specification lists
  (sections 3 and 4.A).
  Scoped enumerators that share a name (\<^verbatim>\<open>kOk\<close>, \<^verbatim>\<open>kUndefinedError\<close>, \<^verbatim>\<open>kAck\<close>,
  \<^verbatim>\<open>kReceipt\<close>) are written qualified, \<open>StompError.kOk\<close>, as the C++ writes
  \<^verbatim>\<open>StompError::kOk\<close>.
\<close>

datatype StompCommand =
    kInvalid
  | kAbort | kAck | kBegin | kCommit | kConnect | kConnected | kDisconnect
  | kError | kMessage | kNack | kReceipt | kSend | kStomp | kSubscribe | kUnsubscribe

datatype StompHeader =
    kAcceptVersion | kAck | kContentLength | kDestination | kHost | kId | kLogin
  | kMessageId | kPasscode | kReceipt | kReceiptId | kSubscription | kVersion

datatype StompError =
    kOk | kEmptyInput | kUnterminatedFrame | kInvalidCommand | kNoHeader
  | kEmptyHeaderKey | kInvalidHeaderValue | kMissingRequiredHeader
  | kContentLengthMismatch | kJunkAfterBody

record StompFrame =
  command :: StompCommand
  headers :: "(StompHeader \<times> string) list"
  body :: string

definition GetCommand :: "StompFrame \<Rightarrow> StompCommand" where
  "GetCommand frame = command frame"

definition GetBody :: "StompFrame \<Rightarrow> string" where
  "GetBody frame = body frame"

text \<open>
  Modelled from the spec: \<^verbatim>\<open>StompFrame::GetHeaderValue\<close> (stomp-frame.cpp is not among
  the sources). A frame holds each header key at most once, the first occurrence; the
  value of a header the frame does not hold is read as the empty string.
\<close>

definition GetHeaderValue :: "StompFrame \<Rightarrow> StompHeader \<Rightarrow> string" where
  "GetHeaderValue frame h = (case map_of (headers frame) h of None \<Rightarrow> [] | Some v \<Rightarrow> v)"

subsection \<open>The codec of section 4.A\<close>

text \<open>
  The client reaches the codec through three entry points: the parsing constructor
  \<^verbatim>\<open>StompFrame(error, msg)\<close>, the building constructor
  \<^verbatim>\<open>StompFrame(error, command, headers)\<close> and \<^verbatim>\<open>ToString\<close>. The client's functions
  below take them as the fields of a \<open>codec\<close>, so every theorem about the client holds for
  whatever codec it is linked with.
\<close>

record codec =
  parseFrame :: "string \<Rightarrow> StompError \<times> StompFrame"
  makeFrame :: "StompCommand \<Rightarrow> (StompHeader \<times> string) list \<Rightarrow> StompError \<times> StompFrame"
  frameToString :: "StompFrame \<Rightarrow> string"

definition LF :: char where "LF = CHR 0x0A"
definition CR :: char where "CR = CHR 0x0D"
definition NUL :: char where "NUL = CHR 0x00"
definition BACKSLASH :: char where "BACKSLASH = CHR 0x5C"
definition COLON :: char where "COLON = CHR 0x3A"

definition commandNames :: "(string \<times> StompCommand) list" where
  "commandNames =
    [(''ABORT'', kAbort), (''ACK'', StompCommand.kAck), (''BEGIN'', kBegin),
     (''COMMIT'', kCommit),
     (''CONNECT'', kConnect), (''CONNECTED'', kConnected), (''DISCONNECT'', kDisconnect),
     (''ERROR'', kError), (''MESSAGE'', kMessage), (''NACK'', kNack),
     (''RECEIPT'', StompCommand.kReceipt), (''SEND'', kSend), (''STOMP'', kStomp),
     (''SUBSCRIBE'', kSubscribe), (''UNSUBSCRIBE'', kUnsubscribe)]"

definition headerNames :: "(string \<times> StompHeader) list" where
  "headerNames =
    [(''accept-version'', kAcceptVersion), (''ack'', StompHeader.kAck),
     (''content-length'', kContentLength), (''destination'', kDestination),
     (''host'', kHost), (''id'', kId), (''login'', kLogin),
     (''message-id'', kMessageId), (''passcode'', kPasscode),
     (''receipt'', StompHeader.kReceipt), (''receipt-id'', kReceiptId),
     (''subscription'', kSubscription), (''version'', kVersion)]"

fun nameOf :: "(string \<times> 'a) list \<Rightarrow> 'a \<Rightarrow> string" where
  "nameOf [] x = []"
| "nameOf ((n, y) # rest) x = (if y = x then n else nameOf rest x)"

text \<open>
  Modelled from the spec: the mandatory headers of each command (4.A, parsing step 4).
\<close>

fun requiredHeaders :: "StompCommand \<Rightarrow> StompHeader list" where
  "requiredHeaders kConnect = [kAcceptVersion, kHost]"
| "requiredHeaders kStomp = [kAcceptVersion, kHost]"
| "requiredHeaders kConnected = [kVersion]"
| "requiredHeaders kSend = [kDestination]"
| "requiredHeaders kSubscribe = [kDestination, kId]"
| "requiredHeaders kUnsubscribe = [kId]"
| "requiredHeaders kMessage = [kDestination, kMessageId, kSubscription]"
| "requiredHeaders StompCommand.kReceipt = [kReceiptId]"
| "requiredHeaders _ = []"

text \<open>Of several headers with one key the first is kept.\<close>

fun firstWins :: "(StompHeader \<times> string) list \<Rightarrow> (StompHeader \<times> string) list" where
  "firstWins [] = []"
| "firstWins ((k, v) # rest) = (k, v) # firstWins (filter (\<lambda>kv. fst kv \<noteq> k) rest)"

fun decimal :: "nat \<Rightarrow> nat \<Rightarrow> string" where
  "decimal 0 n = []"
| "decimal (Suc fuel) n =
     (if n < 10 then [char_of (48 + n)]
      else decimal fuel (n div 10) @ [char_of (48 + n mod 10)])"

definition showNat :: "nat \<Rightarrow> string" where
  "showNat n = decimal (Suc n) n"

text \<open>
  Modelled from the spec: validation of a frame (4.A, steps 4 and 5): every mandatory
  header of the command is present, and a \<^verbatim>\<open>content-length\<close> header equals the length of
  the body.
\<close>

definition validateFrame :: "StompFrame \<Rightarrow> StompError" where
  "validateFrame frame =
     (if \<not> list_all (\<lambda>h. h \<in> fst ` set (headers frame)) (requiredHeaders (command frame))
      then kMissingRequiredHeader
      else (case map_of (headers frame) kContentLength of
              None \<Rightarrow> StompError.kOk
            | Some v \<Rightarrow> if v = showNat (length (body frame)) then StompError.kOk
                        else kContentLengthMismatch))"

text \<open>
  Modelled from the spec: the building constructor \<^verbatim>\<open>StompFrame(error, command, headers)\<close>
  with its default empty body. A frame that does not validate is reported through
  \<open>error\<close>.
\<close>

definition StompFrame_make ::
  "StompCommand \<Rightarrow> (StompHeader \<times> string) list \<Rightarrow> StompError \<times> StompFrame" where
  "StompFrame_make c hs =
     (let frame = \<lparr>command = c, headers = firstWins hs, body = []\<rparr>
      in (if c = kInvalid then kInvalidCommand else validateFrame frame, frame))"

text \<open>
  Modelled from the spec: serialization (4.A),
  \<^verbatim>\<open>COMMAND LF (KEY ':' VALUE LF)* LF BODY NUL\<close>, header values escaped except in
  \<^verbatim>\<open>CONNECT\<close> and \<^verbatim>\<open>CONNECTED\<close> frames.
\<close>

fun escapeValue :: "string \<Rightarrow> string" where
  "escapeValue [] = []"
| "escapeValue (c # cs) =
     (if c = CR then [BACKSLASH, CHR ''r'']
      else if c = LF then [BACKSLASH, CHR ''n'']
      else if c = COLON then [BACKSLASH, CHR ''c'']
      else if c = BACKSLASH then [BACKSLASH, BACKSLASH]
      else [c]) @ escapeValue cs"

definition rawValues :: "StompCommand \<Rightarrow> bool" where
  "rawValues c = (c = kConnect \<or> c = kConnected)"

text \<open>Modelled from the spec: \<^verbatim>\<open>StompFrame::ToString\<close>, the serialization of 4.A.\<close>

definition ToString :: "StompFrame \<Rightarrow> string" where
  "ToString frame =
     nameOf commandNames (command frame) @ [LF]
     @ concat (map (\<lambda>(k, v). nameOf headerNames k @ [COLON]
                      @ (if rawValues (command frame) then v else escapeValue v) @ [LF])
                 (headers frame))
     @ [LF] @ body frame @ [NUL]"

text \<open>
  Modelled from the spec: unescaping of a header value (4.A, parsing step 2); \<open>None\<close>
  for an invalid escape.
\<close>

fun unescapeValue :: "string \<Rightarrow> string option" where
  "unescapeValue [] = Some []"
| "unescapeValue [c] = (if c = BACKSLASH then None else Some [c])"
| "unescapeValue (c # d # cs) =
     (if c = BACKSLASH then
        (if d = CHR ''r'' then map_option ((#) CR) (unescapeValue cs)
         else if d = CHR ''n'' then map_option ((#) LF) (unescapeValue cs)
         else if d = CHR ''c'' then map_option ((#) COLON) (unescapeValue cs)
         else if d = BACKSLASH then map_option ((#) BACKSLASH) (unescapeValue cs)
         else None)
      else map_option ((#) c) (unescapeValue (d # cs)))"

definition emptyFrame :: StompFrame where
  "emptyFrame = \<lparr>command = kInvalid, headers = [], body = []\<rparr>"

text \<open>
  Modelled from the spec: step 2 of the parsing contract. \<open>parseHeaders c n rest acc\<close>
  reads header lines from \<open>rest\<close> until the blank line and returns the headers read and
  what follows the blank line; of several headers with one key it keeps the first. \<open>n\<close>
  bounds the number of lines by the length of the input.
\<close>

fun parseHeaders ::
  "StompCommand \<Rightarrow> nat \<Rightarrow> string \<Rightarrow> (StompHeader \<times> string) list
     \<Rightarrow> StompError + ((StompHeader \<times> string) list \<times> string)" where
  "parseHeaders c 0 rest acc = Inl kUnterminatedFrame"
| "parseHeaders c (Suc n) rest acc =
     (let line = takeWhile (\<lambda>x. x \<noteq> LF) rest;
          after = drop (Suc (length line)) rest
      in if length line = length rest then Inl kNoHeader
         else if line = [] then Inr (acc, after)
         else if COLON \<notin> set line then Inl kNoHeader
         else
           (let key = takeWhile (\<lambda>x. x \<noteq> COLON) line;
                val = drop (Suc (length key)) line
            in if key = [] then Inl kEmptyHeaderKey
               else (case (if rawValues c then Some val else unescapeValue val) of
                       None \<Rightarrow> Inl kInvalidHeaderValue
                     | Some v \<Rightarrow>
                         (case map_of headerNames key of
                            None \<Rightarrow> parseHeaders c n after acc
                          | Some h \<Rightarrow>
                              parseHeaders c n after
                                (if h \<in> fst ` set acc then acc else acc @ [(h, v)])))))"

text \<open>
  Modelled from the spec: the parsing constructor \<^verbatim>\<open>StompFrame(error, msg)\<close>, steps 1 to 5
  of the parsing contract of 4.A. The spec does not say what a rejected frame holds; here
  it is the empty frame with the command \<open>kInvalid\<close>, and no theorem below depends on
  that choice. A header whose key is outside the closed set is skipped.
\<close>

definition StompFrame_parse :: "string \<Rightarrow> StompError \<times> StompFrame" where
  "StompFrame_parse msg =
     (if msg = [] then (kEmptyInput, emptyFrame)
      else if NUL \<notin> set msg then (kUnterminatedFrame, emptyFrame)
      else
        (let name = takeWhile (\<lambda>x. x \<noteq> LF) msg in
         case map_of commandNames name of
           None \<Rightarrow> (kInvalidCommand, emptyFrame)
         | Some c \<Rightarrow>
             (case parseHeaders c (length msg) (drop (Suc (length name)) msg) [] of
                Inl e \<Rightarrow> (e, emptyFrame)
              | Inr (hs, rest) \<Rightarrow>
                  (let b = takeWhile (\<lambda>x. x \<noteq> NUL) rest;
                       junk = drop (Suc (length b)) rest;
                       frame = \<lparr>command = c, headers = hs, body = b\<rparr>
                   in if length b = length rest then (kUnterminatedFrame, emptyFrame)
                      else if \<not> list_all (\<lambda>x. x = CR \<or> x = LF) junk
                      then (kJunkAfterBody, emptyFrame)
                      else if validateFrame frame \<noteq> StompError.kOk
                      then (validateFrame frame, emptyFrame)
                      else (StompError.kOk, frame)))))"

definition stompCodec :: codec where
  "stompCodec =
     \<lparr>parseFrame = StompFrame_parse, makeFrame = StompFrame_make, frameToString = ToString\<rparr>"

section \<open>The STOMP client\<close>

datatype StompClientError =
    kOk
  | kUndefinedError
  | kCouldNotCloseWebSocketsConnection
  | kCouldNotConnectToWebSocketsServer
  | kCouldNotSendStompFrame
  | kCouldNotSendSubscribeFrame
  | kUnexpectedCouldNotCreateValidFrame
  | kUnexpectedMessageContentType
  | kUnexpectedSubscriptionMismatch
  | kWebSocketsServerDisconnected

text \<open>
  A \<^verbatim>\<open>boost::system::error_code\<close> is its integer value: \<^verbatim>\<open>if (ec)\<close> is \<open>ec \<noteq> 0\<close>.
\<close>

type_synonym error_code = int

text \<open>
  A user handler is a \<^verbatim>\<open>std::function\<close>: \<open>None\<close> is the empty function (\<^verbatim>\<open>nullptr\<close>),
  \<open>Some h\<close> holds the callable \<open>h\<close>.
\<close>

record 'h Subscription =
  endpoint :: string
  onSubscribe :: "'h option"
  onMessage :: "'h option"

text \<open>
  The lambdas the client posts to its strand \<^verbatim>\<open>context_\<close>. The first two capture
  \<^verbatim>\<open>this\<close> and read the member handler when they run; the others capture the handler
  by value.
\<close>

datatype 'h task =
    NotifyConnect StompClientError
  | NotifyDisconnect StompClientError
  | NotifyClose "'h option" StompClientError
  | NotifySubscribe "'h option" StompClientError string
  | NotifyMessage "'h option" StompClientError string

text \<open>
  The calls the client makes on its transport \<^verbatim>\<open>ws_\<close>, each with the completion
  handler it passes: \<^verbatim>\<open>Connect\<close> passes \<^verbatim>\<open>OnWsConnect\<close>, \<^verbatim>\<open>OnWsMessage\<close> and
  \<^verbatim>\<open>OnWsDisconnect\<close>; a \<^verbatim>\<open>Send\<close> passes \<^verbatim>\<open>OnWsSendStomp\<close>, or \<^verbatim>\<open>OnWsSendSubscribe\<close>
  with the subscription id and the subscription; \<^verbatim>\<open>Close\<close> passes \<^verbatim>\<open>OnWsClose\<close> with
  the user's handler.
\<close>

datatype 'h ws_call =
    WsConnect
  | WsSendStomp string
  | WsSendSubscribe string string "'h Subscription"
  | WsClose "'h option"

text \<open>
  The members of \<^verbatim>\<open>StompClient\<close>. Isabelle names cannot end in an underscore, so
  \<^verbatim>\<open>url_\<close>, \<^verbatim>\<open>username_\<close> and \<^verbatim>\<open>password_\<close> are \<open>url_member\<close> and so on, and the other
  members drop it. \<open>ws_target\<close> holds the URL, endpoint and port the transport \<^verbatim>\<open>ws_\<close>
  was constructed with. \<open>strand\<close> is the queue of tasks posted to \<^verbatim>\<open>context_\<close> and not yet
  run, oldest first. \<open>ws\<close> lists the calls made on the transport, oldest first, of which
  the first \<open>completed\<close> have had their completion handler run. \<open>uuids\<close> is the state of
  Boost's random UUID generator: the identifiers it yields from now on. \<open>log\<close> holds the
  format strings of the \<^verbatim>\<open>spdlog::error\<close> calls made.
\<close>

record 'h StompClient =
  url_member :: string
  onConnect :: "'h option"
  onDisconnect :: "'h option"
  username_member :: string
  password_member :: string
  subscriptions :: "string \<rightharpoonup> 'h Subscription"
  strand :: "'h task list"
  ws_target :: "string \<times> string \<times> string"
  ws :: "'h ws_call list"
  completed :: nat
  uuids :: "nat \<Rightarrow> string"
  log :: "string list"

definition post :: "'h task \<Rightarrow> 'h StompClient \<Rightarrow> 'h StompClient" where
  "post t c = c\<lparr>strand := strand c @ [t]\<rparr>"

definition call_ws :: "'h ws_call \<Rightarrow> 'h StompClient \<Rightarrow> 'h StompClient" where
  "call_ws r c = c\<lparr>ws := ws c @ [r]\<rparr>"

definition log_error :: "string \<Rightarrow> 'h StompClient \<Rightarrow> 'h StompClient" where
  "log_error s c = c\<lparr>log := log c @ [s]\<rparr>"

text \<open>
  The constructor. Its \<^verbatim>\<open>io_context\<close> and TLS context go to the transport and the
  strand; \<open>rng\<close> is the state of the UUID generator at construction.
\<close>

definition StompClient_new ::
  "string \<Rightarrow> string \<Rightarrow> string \<Rightarrow> (nat \<Rightarrow> string) \<Rightarrow> 'h StompClient" where
  "StompClient_new u target prt rng =
     \<lparr>url_member = u, onConnect = None, onDisconnect = None,
      username_member = [], password_member = [],
      subscriptions = Map.empty, strand = [], ws_target = (u, target, prt), ws = [],
      completed = 0, uuids = rng, log = []\<rparr>"

definition Connect ::
  "string \<Rightarrow> string \<Rightarrow> 'h option \<Rightarrow> 'h option \<Rightarrow> 'h StompClient \<Rightarrow> 'h StompClient" where
  "Connect user pass hConnect hDisconnect c =
     call_ws WsConnect
       (c\<lparr>username_member := user, password_member := pass,
          onConnect := hConnect, onDisconnect := hDisconnect\<rparr>)"

definition Close :: "'h option \<Rightarrow> 'h StompClient \<Rightarrow> 'h StompClient" where
  "Close onClose c = call_ws (WsClose onClose) (c\<lparr>subscriptions := Map.empty\<rparr>)"

definition GenerateId :: "'h StompClient \<Rightarrow> string \<times> 'h StompClient" where
  "GenerateId c = (uuids c 0, c\<lparr>uuids := (\<lambda>n. uuids c (Suc n))\<rparr>)"

definition subscribeHeaders :: "string \<Rightarrow> string \<Rightarrow> (StompHeader \<times> string) list" where
  "subscribeHeaders subscriptionId subscriptionEndpoint =
     [(kId, subscriptionId), (kDestination, subscriptionEndpoint),
      (StompHeader.kAck, ''auto''), (StompHeader.kReceipt, subscriptionId)]"

definition Subscribe ::
  "codec \<Rightarrow> string \<Rightarrow> 'h option \<Rightarrow> 'h option \<Rightarrow> 'h StompClient
     \<Rightarrow> string \<times> 'h StompClient" where
  "Subscribe cd subscriptionEndpoint hSubscribe hMessage c0 =
     (let (subscriptionId, c) = GenerateId c0;
          subscription = \<lparr>endpoint = subscriptionEndpoint,
                          onSubscribe = hSubscribe, onMessage = hMessage\<rparr>;
          (error, frame) =
             makeFrame cd kSubscribe (subscribeHeaders subscriptionId subscriptionEndpoint)
      in if error \<noteq> StompError.kOk
         then ([], post (NotifySubscribe hSubscribe kUnexpectedCouldNotCreateValidFrame
                           subscriptionId) c)
         else (subscriptionId,
               call_ws (WsSendSubscribe (frameToString cd frame) subscriptionId subscription)
                 c))"

definition stompHeaders :: "'h StompClient \<Rightarrow> (StompHeader \<times> string) list" where
  "stompHeaders c =
     [(kAcceptVersion, ''1.2''), (kHost, url_member c), (kLogin, username_member c),
      (kPasscode, password_member c)]"

definition OnWsConnect :: "codec \<Rightarrow> error_code \<Rightarrow> 'h StompClient \<Rightarrow> 'h StompClient" where
  "OnWsConnect cd ec c =
     (if ec \<noteq> 0
      then post (NotifyConnect kCouldNotConnectToWebSocketsServer)
             (log_error ''OnWsConnect'' c)
      else (let (error, frame) = makeFrame cd kStomp (stompHeaders c)
            in if error \<noteq> StompError.kOk
               then post (NotifyConnect kUnexpectedCouldNotCreateValidFrame)
                      (log_error ''OnWsConnect: {}: {}'' c)
               else call_ws (WsSendStomp (frameToString cd frame)) c))"

definition OnWsSendStomp :: "error_code \<Rightarrow> 'h StompClient \<Rightarrow> 'h StompClient" where
  "OnWsSendStomp ec c =
     (if ec \<noteq> 0
      then post (NotifyConnect kCouldNotSendStompFrame)
             (log_error ''OnWsSendStomp: {}'' c)
      else c)"

text \<open>\<^verbatim>\<open>unordered_map::emplace\<close> inserts only when the key is not in the map yet.\<close>

definition emplace :: "'k \<Rightarrow> 'v \<Rightarrow> ('k \<rightharpoonup> 'v) \<Rightarrow> ('k \<rightharpoonup> 'v)" where
  "emplace k v m = (case m k of None \<Rightarrow> m(k \<mapsto> v) | Some old \<Rightarrow> m)"

definition OnWsSendSubscribe ::
  "error_code \<Rightarrow> string \<Rightarrow> 'h Subscription \<Rightarrow> 'h StompClient \<Rightarrow> 'h StompClient" where
  "OnWsSendSubscribe ec subscriptionId subscription c =
     (if \<not> ec \<noteq> 0
      then c\<lparr>subscriptions := emplace subscriptionId subscription (subscriptions c)\<rparr>
      else post (NotifySubscribe (onSubscribe subscription) kCouldNotSendSubscribeFrame [])
             (log_error ''OnWsSendSubscribe: {}'' c))"

definition HandleConnected :: "StompFrame \<Rightarrow> 'h StompClient \<Rightarrow> 'h StompClient" where
  "HandleConnected frame c = post (NotifyConnect StompClientError.kOk) c"

definition HandleError :: "StompFrame \<Rightarrow> 'h StompClient \<Rightarrow> 'h StompClient" where
  "HandleError frame c =
     log_error ''HandleError: The STOMP frame returned an error: {}'' c"

definition HandleSubscriptionMessage ::
  "StompFrame \<Rightarrow> 'h StompClient \<Rightarrow> 'h StompClient" where
  "HandleSubscriptionMessage frame c =
     (let subscriptionId = GetHeaderValue frame kSubscription in
      case subscriptions c subscriptionId of
        None \<Rightarrow> log_error ''HandleSubscriptionMessage: Cannot find subscription'' c
      | Some subscription \<Rightarrow>
          (let dest = GetHeaderValue frame kDestination in
           if dest \<noteq> endpoint subscription
           then post (NotifyMessage (onMessage subscription)
                        kUnexpectedSubscriptionMismatch []) c
           else post (NotifyMessage (onMessage subscription) StompClientError.kOk
                        (GetBody frame)) c))"

definition HandleSubscriptionReceipt ::
  "StompFrame \<Rightarrow> 'h StompClient \<Rightarrow> 'h StompClient" where
  "HandleSubscriptionReceipt frame c =
     (let subscriptionId = GetHeaderValue frame kReceiptId in
      case subscriptions c subscriptionId of
        None \<Rightarrow> log_error ''HandleSubscriptionReceipt: Cannot find subscription'' c
      | Some subscription \<Rightarrow>
          post (NotifySubscribe (onSubscribe subscription) StompClientError.kOk
                  subscriptionId) c)"

text \<open>The \<^verbatim>\<open>switch\<close> of \<^verbatim>\<open>OnWsMessage\<close> on the command of the frame.\<close>

definition dispatchFrame :: "StompFrame \<Rightarrow> 'h StompClient \<Rightarrow> 'h StompClient" where
  "dispatchFrame frame c =
     (case GetCommand frame of
        kConnected \<Rightarrow> HandleConnected frame c
      | kError \<Rightarrow> HandleError frame c
      | kMessage \<Rightarrow> HandleSubscriptionMessage frame c
      | StompCommand.kReceipt \<Rightarrow> HandleSubscriptionReceipt frame c
      | _ \<Rightarrow> log_error ''OnWsMessage: Unexpected STOMP command: {}'' c)"

text \<open>
  \<^verbatim>\<open>OnWsMessage\<close>. The branch taken when the message does not parse posts the
  \<^verbatim>\<open>onConnect_\<close> notification and does not return, so the \<^verbatim>\<open>switch\<close> then runs on
  whatever the rejected frame holds.
\<close>

definition OnWsMessage ::
  "codec \<Rightarrow> error_code \<Rightarrow> string \<Rightarrow> 'h StompClient \<Rightarrow> 'h StompClient" where
  "OnWsMessage cd ec msg c =
     (let (error, frame) = parseFrame cd msg;
          c1 = (if error \<noteq> StompError.kOk
                then post (NotifyConnect kUnexpectedCouldNotCreateValidFrame)
                       (log_error ''OnWsMessage: {}: {}'' c)
                else c)
      in dispatchFrame frame c1)"

definition OnWsDisconnect :: "error_code \<Rightarrow> 'h StompClient \<Rightarrow> 'h StompClient" where
  "OnWsDisconnect ec c =
     post (NotifyDisconnect (if ec \<noteq> 0 then kWebSocketsServerDisconnected
                             else StompClientError.kOk))
       (log_error ''OnWsDisconnect: {}'' c)"

definition OnWsClose :: "error_code \<Rightarrow> 'h option \<Rightarrow> 'h StompClient \<Rightarrow> 'h StompClient" where
  "OnWsClose ec onClose c =
     post (NotifyClose onClose (if ec \<noteq> 0 then kCouldNotCloseWebSocketsConnection
                                else StompClientError.kOk)) c"

subsection \<open>Running a posted task\<close>

text \<open>
  What running a task does to the user's handlers: a handler is called with its
  arguments, or an empty \<^verbatim>\<open>std::function\<close> is called, which throws
  \<^verbatim>\<open>std::bad_function_call\<close>. Every posted lambda has the shape
  \<^verbatim>\<open>if (handler) { handler(args); }\<close>; \<open>None\<close> is the run that calls nothing.
\<close>

datatype 'h invocation =
    Invoke 'h StompClientError
  | InvokeWith 'h StompClientError string
  | BadFunctionCall

definition call1 :: "'h option \<Rightarrow> StompClientError \<Rightarrow> 'h invocation" where
  "call1 f e = (case f of None \<Rightarrow> BadFunctionCall | Some h \<Rightarrow> Invoke h e)"

definition call2 :: "'h option \<Rightarrow> StompClientError \<Rightarrow> string \<Rightarrow> 'h invocation" where
  "call2 f e s = (case f of None \<Rightarrow> BadFunctionCall | Some h \<Rightarrow> InvokeWith h e s)"

fun runTask :: "'h StompClient \<Rightarrow> 'h task \<Rightarrow> 'h invocation option" where
  "runTask c (NotifyConnect e) =
     (if onConnect c \<noteq> None then Some (call1 (onConnect c) e) else None)"
| "runTask c (NotifyDisconnect e) =
     (if onDisconnect c \<noteq> None then Some (call1 (onDisconnect c) e) else None)"
| "runTask c (NotifyClose f e) = (if f \<noteq> None then Some (call1 f e) else None)"
| "runTask c (NotifySubscribe f e s) = (if f \<noteq> None then Some (call2 f e s) else None)"
| "runTask c (NotifyMessage f e s) = (if f \<noteq> None then Some (call2 f e s) else None)"

text \<open>
  What an operation that took the client from \<open>c\<close> to \<open>c'\<close> added: the tasks it posted,
  the transport calls it made, the errors it logged.
\<close>

definition posted :: "'h StompClient \<Rightarrow> 'h StompClient \<Rightarrow> 'h task list" where
  "posted c c' = drop (length (strand c)) (strand c')"

definition called :: "'h StompClient \<Rightarrow> 'h StompClient \<Rightarrow> 'h ws_call list" where
  "called c c' = drop (length (ws c)) (ws c')"

definition logged :: "'h StompClient \<Rightarrow> 'h StompClient \<Rightarrow> string list" where
  "logged c c' = drop (length (log c)) (log c')"

text \<open>The handler invocations that running the tasks \<open>ts\<close> makes, in order.\<close>

definition invocations :: "'h StompClient \<Rightarrow> 'h task list \<Rightarrow> 'h invocation list" where
  "invocations c ts = List.map_filter (runTask c) ts"

subsection \<open>The transport's side\<close>

text \<open>
  The transport completes the client's calls in the order they were made:
  \<open>complete cd ec c\<close> runs the completion handler of the oldest call not yet completed,
  with the error code \<open>ec\<close>.
\<close>

definition complete :: "codec \<Rightarrow> error_code \<Rightarrow> 'h StompClient \<Rightarrow> 'h StompClient" where
  "complete cd ec c =
     (if completed c < length (ws c)
      then (let c' = c\<lparr>completed := Suc (completed c)\<rparr> in
            case ws c ! completed c of
              WsConnect \<Rightarrow> OnWsConnect cd ec c'
            | WsSendStomp payload \<Rightarrow> OnWsSendStomp ec c'
            | WsSendSubscribe payload subscriptionId subscription \<Rightarrow>
                OnWsSendSubscribe ec subscriptionId subscription c'
            | WsClose onClose \<Rightarrow> OnWsClose ec onClose c')
      else c)"

text \<open>The inbound messages \<open>msgs\<close> handed to \<^verbatim>\<open>OnWsMessage\<close> one after the other.\<close>

fun receiveAll :: "codec \<Rightarrow> string list \<Rightarrow> 'h StompClient \<Rightarrow> 'h StompClient" where
  "receiveAll cd [] c = c"
| "receiveAll cd (msg # msgs) c = receiveAll cd msgs (OnWsMessage cd 0 msg c)"

definition operation_aborted :: error_code where
  "operation_aborted = 125"

text \<open>
  Modelled from the spec: the transport's \<^verbatim>\<open>Close\<close> (websocket-client.h is not among the
  sources). By 4.B a \<^verbatim>\<open>Close\<close> on a transport that was never connected completes with
  an error (the WebSocket stream mock of the tests aborts the operation when the stream
  is closed, which it is from construction on); any other \<^verbatim>\<open>Close\<close> completes with the
  code \<open>ec\<close> the network gives it.
\<close>

definition closeCompletion :: "'h ws_call list \<Rightarrow> error_code \<Rightarrow> error_code" where
  "closeCompletion earlier ec = (if WsConnect \<in> set earlier then ec else operation_aborted)"

subsection \<open>Everything that can happen to a client\<close>

text \<open>
  The user's calls, the transport's callbacks and the strand running its oldest task, in
  whatever order they come.
\<close>

datatype 'h client_event =
    UserConnect string string "'h option" "'h option"
  | UserSubscribe string "'h option" "'h option"
  | UserClose "'h option"
  | TransportCompletes error_code
  | TransportDelivers error_code string
  | TransportDisconnects error_code
  | StrandRuns

fun clientStep :: "codec \<Rightarrow> 'h client_event \<Rightarrow> 'h StompClient \<Rightarrow> 'h StompClient" where
  "clientStep cd (UserConnect user pass hConnect hDisconnect) c =
     Connect user pass hConnect hDisconnect c"
| "clientStep cd (UserSubscribe ep hSubscribe hMessage) c =
     snd (Subscribe cd ep hSubscribe hMessage c)"
| "clientStep cd (UserClose onClose) c = Close onClose c"
| "clientStep cd (TransportCompletes ec) c = complete cd ec c"
| "clientStep cd (TransportDelivers ec msg) c = OnWsMessage cd ec msg c"
| "clientStep cd (TransportDisconnects ec) c = OnWsDisconnect ec c"
| "clientStep cd StrandRuns c = c\<lparr>strand := tl (strand c)\<rparr>"

fun clientRun :: "codec \<Rightarrow> 'h client_event list \<Rightarrow> 'h StompClient \<Rightarrow> 'h StompClient" where
  "clientRun cd [] c = c"
| "clientRun cd (ev # evs) c = clientRun cd evs (clientStep cd ev c)"

text \<open>
  The event is the transport completing a \<^verbatim>\<open>SUBSCRIBE\<close> send without error: the one
  event after which \<^verbatim>\<open>OnWsSendSubscribe\<close> stores a subscription.
\<close>

fun subscribeSendSucceeds :: "'h client_event \<Rightarrow> 'h StompClient \<Rightarrow> bool" where
  "subscribeSendSucceeds (TransportCompletes ec) c =
     (ec = 0 \<and> completed c < length (ws c)
      \<and> (case ws c ! completed c of
            WsSendSubscribe payload subscriptionId subscription \<Rightarrow> True
          | other \<Rightarrow> False))"
| "subscribeSendSucceeds ev c = False"

text \<open>Along the events \<open>evs\<close>, started from \<open>c\<close>, no \<^verbatim>\<open>SUBSCRIBE\<close> send completes without error.\<close>

fun noSubscribeSendSucceeds ::
  "codec \<Rightarrow> 'h client_event list \<Rightarrow> 'h StompClient \<Rightarrow> bool" where
  "noSubscribeSendSucceeds cd [] c = True"
| "noSubscribeSendSucceeds cd (ev # evs) c =
     (\<not> subscribeSendSucceeds ev c \<and> noSubscribeSendSucceeds cd evs (clientStep cd ev c))"

section \<open>The transport network\<close>

text \<open>
  Modelled from the spec: the part of \<^verbatim>\<open>TransportNetwork\<close> the monitor touches
  (transport-network.h is not among the sources): the stations with their passenger
  counts (section 3), the passenger event (section 3) and the two operations of 4.D on
  passenger counts. The topology (lines, routes, travel segments) is fixed once the
  network is built and is left out.
\<close>

datatype PassengerEventType = PassengerIn | PassengerOut

record PassengerEvent =
  stationId :: string
  eventType :: PassengerEventType
  timestamp :: string

record Station =
  stationName :: string
  passengerCount :: int

record TransportNetwork =
  stations :: "string \<rightharpoonup> Station"

text \<open>
  Modelled from the spec: \<^verbatim>\<open>get_passenger_count\<close> of 4.D, the count of a station or
  \<open>None\<close> for a station the network does not have.
\<close>

definition GetPassengerCount :: "TransportNetwork \<Rightarrow> string \<Rightarrow> int option" where
  "GetPassengerCount net sid = map_option passengerCount (stations net sid)"

text \<open>
  Modelled from the spec: \<^verbatim>\<open>record_passenger_event\<close> of 4.D: one more passenger for
  \<^verbatim>\<open>in\<close>, one fewer for \<^verbatim>\<open>out\<close>; an unknown station is rejected and nothing changes.
\<close>

definition TransportNetwork_RecordPassengerEvent ::
  "PassengerEvent \<Rightarrow> TransportNetwork \<Rightarrow> bool \<times> TransportNetwork" where
  "TransportNetwork_RecordPassengerEvent event net =
     (case stations net (stationId event) of
        None \<Rightarrow> (False, net)
      | Some st \<Rightarrow>
          (True,
           net\<lparr>stations := (stations net)(stationId event \<mapsto>
                  st\<lparr>passengerCount :=
                        passengerCount st
                        + (case eventType event of PassengerIn \<Rightarrow> 1 | PassengerOut \<Rightarrow> - 1)\<rparr>)\<rparr>))"

section \<open>The network monitor\<close>

datatype NetworkMonitorError =
    kOk
  | kUndefinedError
  | kCouldNotConnectToStompClient
  | kCouldNotParsePassengerEvent
  | kCouldNotRecordPassengerEvent
  | kCouldNotSubscribeToPassengerEvents
  | kFailedNetworkLayoutFileDownload
  | kFailedNetworkLayoutFileParsing
  | kFailedTransportNetworkConstruction
  | kMissingCaCertFile
  | kMissingNetworkLayoutFile
  | kStompClientDisconnected

record NetworkMonitorConfig =
  url :: string
  port :: string
  username :: string
  password :: string
  caCertFile :: string
  networkLayoutFile :: string

text \<open>A \<^verbatim>\<open>nlohmann::json\<close> value, and its \<^verbatim>\<open>empty()\<close>.\<close>

datatype json =
    JNull
  | JBool bool
  | JNumber int
  | JString string
  | JArray "json list"
  | JObject "(string \<times> json) list"

fun json_empty :: "json \<Rightarrow> bool" where
  "json_empty JNull = True"
| "json_empty (JArray xs) = (xs = [])"
| "json_empty (JObject kvs) = (kvs = [])"
| "json_empty _ = False"

text \<open>
  What the monitor calls and does not define: the file system, the downloader, the JSON
  library, the network's loader and recorder, the TLS context, and the STOMP codec and
  the UUID generator of the client it constructs. \<open>FromJson\<close> gives the value returned,
  or \<open>None\<close> when it throws, and the network it leaves behind. \<open>loadVerifyFile\<close> is
  \<open>False\<close> when \<^verbatim>\<open>load_verify_file\<close> throws. \<open>parsePassengerEvent\<close> is the expression
  \<^verbatim>\<open>event = nlohmann::json::parse(msg)\<close> with its conversion to \<^verbatim>\<open>PassengerEvent\<close>:
  \<open>None\<close> when it throws.
\<close>

record monitor_env =
  fileExists :: "string \<Rightarrow> bool"
  tempDirectoryPath :: string
  DownloadFile :: "string \<Rightarrow> string \<Rightarrow> string \<Rightarrow> bool"
  ParseJsonFile :: "string \<Rightarrow> json"
  FromJson :: "json \<Rightarrow> TransportNetwork \<Rightarrow> bool option \<times> TransportNetwork"
  loadVerifyFile :: "string \<Rightarrow> bool"
  parsePassengerEvent :: "string \<Rightarrow> PassengerEvent option"
  RecordPassengerEvent :: "PassengerEvent \<Rightarrow> TransportNetwork \<Rightarrow> bool \<times> TransportNetwork"
  stompCodecOf :: codec
  randomUuids :: "nat \<Rightarrow> string"

text \<open>
  The four lambdas the monitor hands to its client; each captures \<^verbatim>\<open>this\<close> and calls
  the member function of the same name.
\<close>

datatype monitor_lambda =
    LambdaOnConnect | LambdaOnDisconnect | LambdaOnSubscribe | LambdaOnMessage

text \<open>
  The members of \<^verbatim>\<open>NetworkMonitor\<close>. Of the \<^verbatim>\<open>io_context\<close> the monitor holds whether it
  was stopped; the handlers it has to run are the client's outstanding transport calls
  and strand. \<open>client\<close> is \<open>None\<close> for the null pointer. \<open>monitor_log\<close> holds the format
  strings of the monitor's \<^verbatim>\<open>spdlog::error\<close> calls.
\<close>

record NetworkMonitor =
  ioc_stopped :: bool
  client :: "monitor_lambda StompClient option"
  network :: TransportNetwork
  lastErrorCode :: NetworkMonitorError
  monitor_log :: "string list"

definition NetworkMonitor_new :: NetworkMonitor where
  "NetworkMonitor_new =
     \<lparr>ioc_stopped = False, client = None, network = \<lparr>stations = Map.empty\<rparr>,
      lastErrorCode = NetworkMonitorError.kUndefinedError, monitor_log = []\<rparr>"

definition monitor_error :: "string \<Rightarrow> NetworkMonitor \<Rightarrow> NetworkMonitor" where
  "monitor_error s m = m\<lparr>monitor_log := monitor_log m @ [s]\<rparr>"

definition networkEventsEndpoint :: string where
  "networkEventsEndpoint = ''/network-events''"

definition networkLayoutEndpoint :: string where
  "networkLayoutEndpoint = ''/network-layout.json''"

definition subscriptionEndpoint :: string where
  "subscriptionEndpoint = ''/passengers''"

text \<open>
  \<^verbatim>\<open>Configure\<close> returns an error code, or lets the exception of \<^verbatim>\<open>load_verify_file\<close>
  escape: the first component is then \<open>None\<close>.
\<close>

definition Configure ::
  "monitor_env \<Rightarrow> NetworkMonitorConfig \<Rightarrow> NetworkMonitor
     \<Rightarrow> NetworkMonitorError option \<times> NetworkMonitor" where
  "Configure env config m =
     (if \<not> fileExists env (caCertFile config)
      then (Some kMissingCaCertFile, monitor_error ''Could not find {}. Exiting'' m)
      else if networkLayoutFile config \<noteq> [] \<and> \<not> fileExists env (networkLayoutFile config)
      then (Some kMissingNetworkLayoutFile, monitor_error ''Could not find {}. Exiting'' m)
      else
        (let layoutFile =
               (if networkLayoutFile config = []
                then tempDirectoryPath env @ ''/network-layout.json''
                else networkLayoutFile config);
             fileUrl = ''https://'' @ url config @ networkLayoutEndpoint
         in if networkLayoutFile config = []
               \<and> \<not> DownloadFile env fileUrl layoutFile (caCertFile config)
            then (Some kFailedNetworkLayoutFileDownload,
                  monitor_error ''Could not download {}. Exiting'' m)
            else
              (let parsed = ParseJsonFile env layoutFile in
               if json_empty parsed
               then (Some kFailedNetworkLayoutFileParsing,
                     monitor_error ''Could not parse {}. Exiting'' m)
               else
                 (case FromJson env parsed (network m) of
                    (None, net) \<Rightarrow>
                      (Some kFailedTransportNetworkConstruction,
                       monitor_error
                         ''Exception while constructing the TransportNetwork: {}. Exiting''
                         (m\<lparr>network := net\<rparr>))
                  | (Some False, net) \<Rightarrow>
                      (Some kFailedTransportNetworkConstruction,
                       monitor_error ''Could not construct the TransportNetwork. Exiting''
                         (m\<lparr>network := net\<rparr>))
                  | (Some True, net) \<Rightarrow>
                      (if \<not> loadVerifyFile env (caCertFile config)
                       then (None, m\<lparr>network := net\<rparr>)
                       else (Some NetworkMonitorError.kOk,
                             m\<lparr>network := net,
                               client :=
                                 Some (Connect (username config) (password config)
                                         (Some LambdaOnConnect) (Some LambdaOnDisconnect)
                                         (StompClient_new (url config)
                                            networkEventsEndpoint (port config)
                                            (randomUuids env)))\<rparr>))))))"

definition Stop :: "NetworkMonitor \<Rightarrow> NetworkMonitor" where
  "Stop m = m\<lparr>ioc_stopped := True\<rparr>"

definition GetLastErrorCode :: "NetworkMonitor \<Rightarrow> NetworkMonitorError" where
  "GetLastErrorCode m = lastErrorCode m"

definition GetNetworkRepresentation :: "NetworkMonitor \<Rightarrow> TransportNetwork" where
  "GetNetworkRepresentation m = network m"

subsection \<open>The handlers\<close>

text \<open>
  The handlers run only when the client calls the lambdas, so \<^verbatim>\<open>client_\<close> is not null
  where \<^verbatim>\<open>OnConnect\<close> dereferences it; the model leaves the monitor as it is otherwise.
  \<^verbatim>\<open>Close()\<close> is called with its default argument, the null handler.
\<close>

definition OnConnect :: "monitor_env \<Rightarrow> StompClientError \<Rightarrow> NetworkMonitor \<Rightarrow> NetworkMonitor" where
  "OnConnect env ec m =
     (case client m of
        None \<Rightarrow> m
      | Some c \<Rightarrow>
          (if ec \<noteq> StompClientError.kOk
           then (monitor_error ''NetworkMonitor: STOMP client connection failed: {}'' m)
                  \<lparr>lastErrorCode := kCouldNotConnectToStompClient,
                   client := Some (Close None c)\<rparr>
           else (let (subscriptionId, c') =
                       Subscribe (stompCodecOf env) subscriptionEndpoint
                         (Some LambdaOnSubscribe) (Some LambdaOnMessage) c
                 in if subscriptionId = []
                    then (monitor_error
                            ''NetworkMonitor: STOMP client subscription failed: {}'' m)
                           \<lparr>lastErrorCode := kCouldNotSubscribeToPassengerEvents,
                            client := Some (Close None c')\<rparr>
                    else m\<lparr>client := Some c'\<rparr>)))"

definition OnDisconnect :: "StompClientError \<Rightarrow> NetworkMonitor \<Rightarrow> NetworkMonitor" where
  "OnDisconnect ec m =
     (monitor_error ''NetworkMonitor: STOMP client disconnected: {}'' m)
       \<lparr>lastErrorCode := kStompClientDisconnected\<rparr>"

definition OnSubscribe ::
  "StompClientError \<Rightarrow> string \<Rightarrow> NetworkMonitor \<Rightarrow> NetworkMonitor" where
  "OnSubscribe ec subscriptionId m =
     (if ec \<noteq> StompClientError.kOk
      then (monitor_error ''NetworkMonitor: Unable to subscribe to {}'' m)
             \<lparr>lastErrorCode := kCouldNotSubscribeToPassengerEvents\<rparr>
      else m)"

definition OnMessage ::
  "monitor_env \<Rightarrow> StompClientError \<Rightarrow> string \<Rightarrow> NetworkMonitor \<Rightarrow> NetworkMonitor" where
  "OnMessage env ec msg m =
     (case parsePassengerEvent env msg of
        None \<Rightarrow>
          (monitor_error ''NetworkMonitor: Could not parse passenger event: {}{}'' m)
            \<lparr>lastErrorCode := kCouldNotParsePassengerEvent\<rparr>
      | Some event \<Rightarrow>
          (let (ok, net) = RecordPassengerEvent env event (network m) in
           if \<not> ok
           then (monitor_error
                   ''NetworkMonitor: Could not record new passenger event: {}{}''
                   (m\<lparr>network := net\<rparr>))
                  \<lparr>lastErrorCode := kCouldNotRecordPassengerEvent\<rparr>
           else m\<lparr>network := net\<rparr>))"

subsection \<open>The event loop\<close>

text \<open>
  Calling a lambda runs the member function it wraps. A lambda stored in a slot of the
  other signature does not type-check in the C++; the model leaves the monitor as it is.
\<close>

fun applyLambda :: "monitor_env \<Rightarrow> monitor_lambda invocation \<Rightarrow> NetworkMonitor \<Rightarrow> NetworkMonitor" where
  "applyLambda env (Invoke LambdaOnConnect ec) m = OnConnect env ec m"
| "applyLambda env (Invoke LambdaOnDisconnect ec) m = OnDisconnect ec m"
| "applyLambda env (InvokeWith LambdaOnSubscribe ec s) m = OnSubscribe ec s m"
| "applyLambda env (InvokeWith LambdaOnMessage ec s) m = OnMessage env ec s m"
| "applyLambda env other m = m"

text \<open>
  What the \<^verbatim>\<open>io_context\<close> does next is the environment's choice: the transport completes
  the client's oldest outstanding call, delivers an inbound message or reports a
  disconnection; the oldest task of the strand runs; or \<^verbatim>\<open>Stop()\<close> is called from
  outside the loop.
\<close>

datatype io_event =
    Completed error_code
  | Received error_code string
  | Disconnected error_code
  | StrandTask
  | StopCalled

definition runStrandTask :: "monitor_env \<Rightarrow> NetworkMonitor \<Rightarrow> NetworkMonitor" where
  "runStrandTask env m =
     (case client m of
        None \<Rightarrow> m
      | Some c \<Rightarrow>
          (case strand c of
             [] \<Rightarrow> m
           | t # ts \<Rightarrow>
               (let m' = m\<lparr>client := Some (c\<lparr>strand := ts\<rparr>)\<rparr> in
                case runTask c t of
                  None \<Rightarrow> m'
                | Some invoked \<Rightarrow> applyLambda env invoked m')))"

definition onClient ::
  "(monitor_lambda StompClient \<Rightarrow> monitor_lambda StompClient) \<Rightarrow> NetworkMonitor
     \<Rightarrow> NetworkMonitor" where
  "onClient f m = (case client m of None \<Rightarrow> m | Some c \<Rightarrow> m\<lparr>client := Some (f c)\<rparr>)"

fun step :: "monitor_env \<Rightarrow> io_event \<Rightarrow> NetworkMonitor \<Rightarrow> NetworkMonitor" where
  "step env (Completed ec) m = onClient (complete (stompCodecOf env) ec) m"
| "step env (Received ec msg) m = onClient (OnWsMessage (stompCodecOf env) ec msg) m"
| "step env (Disconnected ec) m = onClient (OnWsDisconnect ec) m"
| "step env StrandTask m = runStrandTask env m"
| "step env StopCalled m = Stop m"

text \<open>
  \<^verbatim>\<open>io_context::run\<close>: handlers run one at a time until none is left or the context is
  stopped.
\<close>

fun ioc_run :: "monitor_env \<Rightarrow> io_event list \<Rightarrow> NetworkMonitor \<Rightarrow> NetworkMonitor" where
  "ioc_run env [] m = m"
| "ioc_run env (ev # evs) m = (if ioc_stopped m then m else ioc_run env evs (step env ev m))"

text \<open>
  \<^verbatim>\<open>Run()\<close> and \<^verbatim>\<open>Run(runFor)\<close>, on the events \<open>evs\<close> the environment has for the
  loop. Of the duration the model keeps what it does to the loop: only the first \<open>n\<close>
  handlers run before it expires.
\<close>

definition Run :: "monitor_env \<Rightarrow> io_event list \<Rightarrow> NetworkMonitor \<Rightarrow> NetworkMonitor" where
  "Run env evs m = ioc_run env evs (m\<lparr>lastErrorCode := NetworkMonitorError.kOk\<rparr>)"

definition RunFor ::
  "monitor_env \<Rightarrow> nat \<Rightarrow> io_event list \<Rightarrow> NetworkMonitor \<Rightarrow> NetworkMonitor" where
  "RunFor env n evs m =
     ioc_run env (take n evs) (m\<lparr>lastErrorCode := NetworkMonitorError.kOk\<rparr>)"

text \<open>The calls a caller can make on a monitor before it runs it.\<close>

datatype early_call = CallConfigure NetworkMonitorConfig | CallStop

fun beforeRun :: "monitor_env \<Rightarrow> early_call list \<Rightarrow> NetworkMonitor \<Rightarrow> NetworkMonitor" where
  "beforeRun env [] m = m"
| "beforeRun env (CallConfigure config # calls) m =
     beforeRun env calls (snd (Configure env config m))"
| "beforeRun env (CallStop # calls) m = beforeRun env calls (Stop m)"

subsection \<open>The error codes a run records\<close>

text \<open>
  The error code that handling the event \<open>ev\<close> stores in the monitor \<open>m\<close>, if it stores
  one: handle the event from a monitor that holds \<open>kOk\<close> and see whether another code is
  there afterwards (no handler stores \<open>kOk\<close>).
\<close>

definition recordedBy ::
  "monitor_env \<Rightarrow> io_event \<Rightarrow> NetworkMonitor \<Rightarrow> NetworkMonitorError option" where
  "recordedBy env ev m =
     (let code = lastErrorCode (step env ev (m\<lparr>lastErrorCode := NetworkMonitorError.kOk\<rparr>))
      in if code = NetworkMonitorError.kOk then None else Some code)"

text \<open>The error codes stored while \<^verbatim>\<open>io_context::run\<close> handles the events \<open>evs\<close>, in order.\<close>

fun recordedDuring ::
  "monitor_env \<Rightarrow> io_event list \<Rightarrow> NetworkMonitor \<Rightarrow> NetworkMonitorError list" where
  "recordedDuring env [] m = []"
| "recordedDuring env (ev # evs) m =
     (if ioc_stopped m then []
      else (case recordedBy env ev m of None \<Rightarrow> [] | Some code \<Rightarrow> [code])
           @ recordedDuring env evs (step env ev m))"

section \<open>Concrete instances\<close>

text \<open>
  The theorems below hold for every codec, generator and environment. These instances
  are the ones they are evaluated at: the codec of section 4.A, a codec whose building
  constructor reports an error (to reach the error branches of the client), a client
  as constructed, a client that is connected and holds one subscription, and frames
  addressed to it.
\<close>

definition rejectingCodec :: codec where
  "rejectingCodec = stompCodec\<lparr>makeFrame := (\<lambda>c hs. (kMissingRequiredHeader, emptyFrame))\<rparr>"

definition sampleUuids :: "nat \<Rightarrow> string" where
  "sampleUuids n = ''3f2504e0-4f89-41d3-9a0c-0305e82c33'' @ showNat (10 + n mod 90)"

definition sampleSubscription :: "string Subscription" where
  "sampleSubscription =
     \<lparr>endpoint = ''/passengers'', onSubscribe = Some ''onSubscribe'',
      onMessage = Some ''onMessage''\<rparr>"

definition sampleClient :: "string StompClient" where
  "sampleClient =
     \<lparr>url_member = ''ltnm.learncppthroughprojects.com'',
      onConnect = Some ''onConnect'', onDisconnect = Some ''onDisconnect'',
      username_member = ''some_username'', password_member = ''some_password_123'',
      subscriptions = [''sub-1'' \<mapsto> sampleSubscription],
      strand = [],
      ws_target = (''ltnm.learncppthroughprojects.com'', ''/network-events'', ''443''),
      ws = [WsConnect], completed = 1, uuids = sampleUuids, log = []\<rparr>"

definition freshClient :: "string StompClient" where
  "freshClient =
     StompClient_new ''ltnm.learncppthroughprojects.com'' ''/network-events'' ''443''
       sampleUuids"

definition sampleMessage :: StompFrame where
  "sampleMessage =
     \<lparr>command = kMessage,
      headers = [(kSubscription, ''sub-1''), (kMessageId, ''007''),
                 (kDestination, ''/passengers'')],
      body = ''{counter: 1}''\<rparr>"

definition strayMessage :: StompFrame where
  "strayMessage =
     \<lparr>command = kMessage,
      headers = [(kSubscription, ''sub-2''), (kMessageId, ''008''),
                 (kDestination, ''/passengers'')],
      body = ''{counter: 2}''\<rparr>"

definition misroutedMessage :: StompFrame where
  "misroutedMessage =
     \<lparr>command = kMessage,
      headers = [(kSubscription, ''sub-1''), (kMessageId, ''009''),
                 (kDestination, ''/departures'')],
      body = ''{counter: 3}''\<rparr>"

definition sampleReceipt :: StompFrame where
  "sampleReceipt =
     \<lparr>command = StompCommand.kReceipt, headers = [(kReceiptId, ''sub-1'')], body = []\<rparr>"

definition strayReceipt :: StompFrame where
  "strayReceipt =
     \<lparr>command = StompCommand.kReceipt, headers = [(kReceiptId, ''sub-2'')], body = []\<rparr>"

text \<open>
  Modelled from the spec: decoding of a passenger event payload (section 6), for payloads
  in the compact form with the keys in the order \<^verbatim>\<open>datetime\<close>, \<^verbatim>\<open>passenger_event\<close>,
  \<^verbatim>\<open>station_id\<close>, which is what the tests feed the monitor. Any other text is rejected.
\<close>

definition DQUOTE :: char where "DQUOTE = CHR 0x22"

fun afterPrefix :: "string \<Rightarrow> string \<Rightarrow> string option" where
  "afterPrefix [] s = Some s"
| "afterPrefix (p # ps) [] = None"
| "afterPrefix (p # ps) (x # xs) = (if p = x then afterPrefix ps xs else None)"

definition compactDecoder :: "string \<Rightarrow> PassengerEvent option" where
  "compactDecoder msg =
     (case afterPrefix (''{'' @ [DQUOTE] @ ''datetime'' @ [DQUOTE] @ '':'' @ [DQUOTE]) msg of
        None \<Rightarrow> None
      | Some r1 \<Rightarrow>
          (let ts = takeWhile (\<lambda>x. x \<noteq> DQUOTE) r1 in
           case afterPrefix ([DQUOTE] @ '','' @ [DQUOTE] @ ''passenger_event'' @ [DQUOTE]
                             @ '':'' @ [DQUOTE]) (drop (length ts) r1) of
             None \<Rightarrow> None
           | Some r2 \<Rightarrow>
               (let kind = takeWhile (\<lambda>x. x \<noteq> DQUOTE) r2 in
                case afterPrefix ([DQUOTE] @ '','' @ [DQUOTE] @ ''station_id'' @ [DQUOTE]
                                  @ '':'' @ [DQUOTE]) (drop (length kind) r2) of
                  None \<Rightarrow> None
                | Some r3 \<Rightarrow>
                    (let sid = takeWhile (\<lambda>x. x \<noteq> DQUOTE) r3 in
                     if drop (length sid) r3 \<noteq> [DQUOTE] @ ''}'' then None
                     else if kind = ''in''
                     then Some \<lparr>stationId = sid, eventType = PassengerIn, timestamp = ts\<rparr>
                     else if kind = ''out''
                     then Some \<lparr>stationId = sid, eventType = PassengerOut, timestamp = ts\<rparr>
                     else None))))"

definition eventPayload :: "string \<Rightarrow> string \<Rightarrow> string \<Rightarrow> string" where
  "eventPayload ts kind sid =
     ''{'' @ [DQUOTE] @ ''datetime'' @ [DQUOTE] @ '':'' @ [DQUOTE] @ ts
     @ [DQUOTE] @ '','' @ [DQUOTE] @ ''passenger_event'' @ [DQUOTE] @ '':'' @ [DQUOTE] @ kind
     @ [DQUOTE] @ '','' @ [DQUOTE] @ ''station_id'' @ [DQUOTE] @ '':'' @ [DQUOTE] @ sid
     @ [DQUOTE] @ ''}''"

definition sampleNetwork :: TransportNetwork where
  "sampleNetwork =
     \<lparr>stations = [''station_0'' \<mapsto> \<lparr>stationName = ''Station 0'', passengerCount = 0\<rparr>,
                  ''station_1'' \<mapsto> \<lparr>stationName = ''Station 1'', passengerCount = 0\<rparr>]\<rparr>"

definition sampleEnv :: monitor_env where
  "sampleEnv =
     \<lparr>fileExists = (\<lambda>p. p = ''cacert.pem'' \<or> p = ''from_json_1line_1route.json''),
      tempDirectoryPath = ''/tmp'',
      DownloadFile = (\<lambda>u p ca. False),
      ParseJsonFile =
        (\<lambda>p. if p = ''from_json_1line_1route.json''
             then JObject [(''stations'', JArray [JString ''station_0'', JString ''station_1''])]
             else JNull),
      FromJson = (\<lambda>j net. (Some True, sampleNetwork)),
      loadVerifyFile = (\<lambda>p. True),
      parsePassengerEvent = compactDecoder,
      RecordPassengerEvent = TransportNetwork_RecordPassengerEvent,
      stompCodecOf = stompCodec,
      randomUuids = sampleUuids\<rparr>"

definition sampleConfig :: NetworkMonitorConfig where
  "sampleConfig =
     \<lparr>url = ''ltnm.learncppthroughprojects.com'', port = ''443'',
      username = ''some_username'', password = ''some_password_123'',
      caCertFile = ''cacert.pem'', networkLayoutFile = ''from_json_1line_1route.json''\<rparr>"

text \<open>
  A monitor that was configured and whose client has a message for the monitor's
  \<^verbatim>\<open>OnMessage\<close> at the head of its strand.
\<close>

definition monitorWith :: "string list \<Rightarrow> NetworkMonitor" where
  "monitorWith payloads =
     onClient
       (\<lambda>c. c\<lparr>strand := map (NotifyMessage (Some LambdaOnMessage) StompClientError.kOk)
                            payloads\<rparr>)
       (snd (Configure sampleEnv sampleConfig NetworkMonitor_new))"

text \<open>
  A client whose connection opened and whose \<^verbatim>\<open>STOMP\<close> frame is being sent: no
  \<^verbatim>\<open>CONNECTED\<close> frame has arrived yet.
\<close>

definition connectingClient :: "string StompClient" where
  "connectingClient =
     complete stompCodec 0
       (Connect ''some_username'' ''some_password_123'' (Some ''onConnect'')
          (Some ''onDisconnect'') freshClient)"

text \<open>
  The connected client after a call of \<^verbatim>\<open>Subscribe\<close> whose send is still outstanding, and
  the same client after a call of \<^verbatim>\<open>Close\<close> on top; the \<^verbatim>\<open>RECEIPT\<close> frame the server
  sends for that subscription.
\<close>

definition subscribingClient :: "string StompClient" where
  "subscribingClient =
     snd (Subscribe stompCodec ''/passengers'' (Some ''onSubscribe'') (Some ''onMessage'')
            sampleClient)"

definition closingClient :: "string StompClient" where
  "closingClient = Close (Some ''onClose'') subscribingClient"

definition lateReceipt :: StompFrame where
  "lateReceipt =
     \<lparr>command = StompCommand.kReceipt,
      headers = [(kReceiptId, ''3f2504e0-4f89-41d3-9a0c-0305e82c3310'')], body = []\<rparr>"

section \<open>Properties of the STOMP client\<close>

lemmas effect_defs = post_def call_ws_def log_error_def posted_def called_def logged_def

lemmas sample_defs = sampleClient_def sampleSubscription_def sampleMessage_def strayMessage_def
  misroutedMessage_def sampleReceipt_def strayReceipt_def GetHeaderValue_def GetBody_def
  GetCommand_def

lemma invocations_single:
  "invocations c [t] = (case runTask c t of None \<Rightarrow> [] | Some i \<Rightarrow> [i])"
  by (simp add: invocations_def split: option.splits)

text \<open>
  The \<^verbatim>\<open>switch\<close> of \<^verbatim>\<open>OnWsMessage\<close> touches neither the registry, nor the transport,
  nor the member handlers; it only posts tasks and logs.
\<close>

lemma dispatchFrame_frame:
  "subscriptions (dispatchFrame f c) = subscriptions c"
  "ws (dispatchFrame f c) = ws c"
  "completed (dispatchFrame f c) = completed c"
  "onConnect (dispatchFrame f c) = onConnect c"
  "onDisconnect (dispatchFrame f c) = onDisconnect c"
  by (cases "GetCommand f";
      simp add: dispatchFrame_def HandleConnected_def HandleError_def
        HandleSubscriptionMessage_def HandleSubscriptionReceipt_def effect_defs Let_def
        split: option.splits)+

lemma dispatchFrame_strand: "\<exists>ts. strand (dispatchFrame f c) = strand c @ ts"
  by (cases "GetCommand f")
     (simp_all add: dispatchFrame_def HandleConnected_def HandleError_def
        HandleSubscriptionMessage_def HandleSubscriptionReceipt_def effect_defs Let_def
        split: option.splits)

lemma dispatchFrame_log: "\<exists>ls. log (dispatchFrame f c) = log c @ ls"
  by (cases "GetCommand f")
     (simp_all add: dispatchFrame_def HandleConnected_def HandleError_def
        HandleSubscriptionMessage_def HandleSubscriptionReceipt_def effect_defs Let_def
        split: option.splits)

lemma OnWsMessage_frame:
  "subscriptions (OnWsMessage cd ec msg c) = subscriptions c"
  "ws (OnWsMessage cd ec msg c) = ws c"
  "completed (OnWsMessage cd ec msg c) = completed c"
  "onConnect (OnWsMessage cd ec msg c) = onConnect c"
  "onDisconnect (OnWsMessage cd ec msg c) = onDisconnect c"
  by (auto simp: OnWsMessage_def dispatchFrame_frame effect_defs split: prod.splits)

lemma receiveAll_frame:
  "subscriptions (receiveAll cd msgs c) = subscriptions c"
  "ws (receiveAll cd msgs c) = ws c"
  "completed (receiveAll cd msgs c) = completed c"
  by (induction msgs arbitrary: c) (simp_all add: OnWsMessage_frame)

lemma sampleUuids_0: "sampleUuids 0 = ''3f2504e0-4f89-41d3-9a0c-0305e82c3310''"
  by code_simp

lemma stompCodec_subscribe:
  "fst (makeFrame stompCodec kSubscribe (subscribeHeaders sid ep)) = StompError.kOk"
  by (simp add: stompCodec_def StompFrame_make_def subscribeHeaders_def validateFrame_def)

lemma stompCodec_rejects:
  "parseFrame stompCodec ''Not a STOMP frame'' = (kUnterminatedFrame, emptyFrame)"
  by (simp add: stompCodec_def StompFrame_parse_def NUL_def)

subsection \<open>Inbound \<^verbatim>\<open>MESSAGE\<close> frames\<close>

text \<open>
  Claim C1. \<^verbatim>\<open>HandleSubscriptionMessage\<close>, for every frame and every client. If the
  frame's \<^verbatim>\<open>subscription\<close> header is no id of the registry, an error is logged, no task
  is posted (so no handler runs) and the registry is as before. If it is the id of a
  subscription whose endpoint differs from the frame's \<^verbatim>\<open>destination\<close> header, exactly
  one task is posted; running it calls that subscription's \<^verbatim>\<open>onMessage\<close> with
  \<open>kUnexpectedSubscriptionMismatch\<close> and the empty payload (nothing, when the handler is
  null), and the registry is as before. Otherwise exactly one task is posted, which
  calls that \<^verbatim>\<open>onMessage\<close> with \<open>kOk\<close> and the body of the frame. An inbound message
  that parses to a \<^verbatim>\<open>MESSAGE\<close> frame is handled by this function and nothing else.
\<close>

theorem message_dispatch:
  fixes c :: "'h StompClient"
  shows
  "(subscriptions c (GetHeaderValue frame kSubscription) = None \<longrightarrow>
      posted c (HandleSubscriptionMessage frame c) = [] \<and>
      logged c (HandleSubscriptionMessage frame c)
        = [''HandleSubscriptionMessage: Cannot find subscription''] \<and>
      subscriptions (HandleSubscriptionMessage frame c) = subscriptions c)
   \<and> (\<forall>s. subscriptions c (GetHeaderValue frame kSubscription) = Some s
            \<and> GetHeaderValue frame kDestination \<noteq> endpoint s \<longrightarrow>
      posted c (HandleSubscriptionMessage frame c)
        = [NotifyMessage (onMessage s) kUnexpectedSubscriptionMismatch []] \<and>
      invocations (HandleSubscriptionMessage frame c)
          (posted c (HandleSubscriptionMessage frame c))
        = (case onMessage s of None \<Rightarrow> []
           | Some h \<Rightarrow> [InvokeWith h kUnexpectedSubscriptionMismatch []]) \<and>
      subscriptions (HandleSubscriptionMessage frame c) = subscriptions c)
   \<and> (\<forall>s. subscriptions c (GetHeaderValue frame kSubscription) = Some s
            \<and> GetHeaderValue frame kDestination = endpoint s \<longrightarrow>
      posted c (HandleSubscriptionMessage frame c)
        = [NotifyMessage (onMessage s) StompClientError.kOk (GetBody frame)] \<and>
      invocations (HandleSubscriptionMessage frame c)
          (posted c (HandleSubscriptionMessage frame c))
        = (case onMessage s of None \<Rightarrow> []
           | Some h \<Rightarrow> [InvokeWith h StompClientError.kOk (GetBody frame)]) \<and>
      subscriptions (HandleSubscriptionMessage frame c) = subscriptions c)
   \<and> (\<forall>cd ec msg. parseFrame cd msg = (StompError.kOk, frame)
          \<and> GetCommand frame = kMessage \<longrightarrow>
        OnWsMessage cd ec msg c = HandleSubscriptionMessage frame c)"
  by (auto simp: HandleSubscriptionMessage_def OnWsMessage_def dispatchFrame_def effect_defs
        invocations_single call2_def split: option.splits)

theorem message_dispatch_witness:
  "posted sampleClient (HandleSubscriptionMessage strayMessage sampleClient) = []
   \<and> logged sampleClient (HandleSubscriptionMessage strayMessage sampleClient)
       = [''HandleSubscriptionMessage: Cannot find subscription'']
   \<and> invocations (HandleSubscriptionMessage misroutedMessage sampleClient)
         (posted sampleClient (HandleSubscriptionMessage misroutedMessage sampleClient))
       = [InvokeWith ''onMessage'' kUnexpectedSubscriptionMismatch []]
   \<and> subscriptions (HandleSubscriptionMessage misroutedMessage sampleClient) ''sub-1''
       = Some sampleSubscription
   \<and> invocations (HandleSubscriptionMessage sampleMessage sampleClient)
         (posted sampleClient (HandleSubscriptionMessage sampleMessage sampleClient))
       = [InvokeWith ''onMessage'' StompClientError.kOk ''{counter: 1}'']"
proof -
  have h1: "subscriptions sampleClient (GetHeaderValue strayMessage kSubscription) = None"
    by (simp add: sample_defs)
  have h2: "subscriptions sampleClient (GetHeaderValue misroutedMessage kSubscription)
              = Some sampleSubscription
            \<and> GetHeaderValue misroutedMessage kDestination \<noteq> endpoint sampleSubscription"
    by (simp add: sample_defs)
  have h3: "subscriptions sampleClient (GetHeaderValue sampleMessage kSubscription)
              = Some sampleSubscription
            \<and> GetHeaderValue sampleMessage kDestination = endpoint sampleSubscription"
    by (simp add: sample_defs)
  have s: "subscriptions sampleClient ''sub-1'' = Some sampleSubscription"
    "onMessage sampleSubscription = Some ''onMessage''"
    "GetBody sampleMessage = ''{counter: 1}''"
    by (simp_all add: sample_defs)
  from message_dispatch [of sampleClient strayMessage] h1
  have r1: "posted sampleClient (HandleSubscriptionMessage strayMessage sampleClient) = []
     \<and> logged sampleClient (HandleSubscriptionMessage strayMessage sampleClient)
       = [''HandleSubscriptionMessage: Cannot find subscription'']"
    by blast
  from message_dispatch [of sampleClient misroutedMessage] h2
  have r2: "invocations (HandleSubscriptionMessage misroutedMessage sampleClient)
         (posted sampleClient (HandleSubscriptionMessage misroutedMessage sampleClient))
       = (case onMessage sampleSubscription of None \<Rightarrow> []
           | Some h \<Rightarrow> [InvokeWith h kUnexpectedSubscriptionMismatch []])
     \<and> subscriptions (HandleSubscriptionMessage misroutedMessage sampleClient)
         = subscriptions sampleClient"
    by blast
  from message_dispatch [of sampleClient sampleMessage] h3
  have r3: "invocations (HandleSubscriptionMessage sampleMessage sampleClient)
         (posted sampleClient (HandleSubscriptionMessage sampleMessage sampleClient))
       = (case onMessage sampleSubscription of None \<Rightarrow> []
           | Some h \<Rightarrow> [InvokeWith h StompClientError.kOk (GetBody sampleMessage)])"
    by blast
  from r1 r2 r3 show ?thesis by (simp add: s)
qed

subsection \<open>Inbound messages that do not parse\<close>

text \<open>
  Claim C2, as amended. For every inbound message that the parsing constructor rejects,
  \<^verbatim>\<open>OnWsMessage\<close> logs the error and the first task it posts is the \<^verbatim>\<open>onConnect_\<close>
  notification with \<open>kUnexpectedCouldNotCreateValidFrame\<close>: running it calls the
  \<^verbatim>\<open>onConnect\<close> handler with that error (nothing, when the handler is null). It makes
  no call on the transport, so nothing is sent or closed and the connection stays up,
  and the registry is as before. (The claim as stated, that no user handler is called,
  fails: see the counterexample. What the \<^verbatim>\<open>switch\<close> that follows does with the
  rejected frame is left open here.)
\<close>

theorem malformed_message:
  fixes c :: "'h StompClient"
  shows
  "fst (parseFrame cd msg) \<noteq> StompError.kOk \<longrightarrow>
     take 1 (posted c (OnWsMessage cd ec msg c))
       = [NotifyConnect kUnexpectedCouldNotCreateValidFrame] \<and>
     invocations (OnWsMessage cd ec msg c) (take 1 (posted c (OnWsMessage cd ec msg c)))
       = (case onConnect c of None \<Rightarrow> []
          | Some h \<Rightarrow> [Invoke h kUnexpectedCouldNotCreateValidFrame]) \<and>
     take 1 (logged c (OnWsMessage cd ec msg c)) = [''OnWsMessage: {}: {}''] \<and>
     called c (OnWsMessage cd ec msg c) = [] \<and>
     subscriptions (OnWsMessage cd ec msg c) = subscriptions c"
proof
  assume bad: "fst (parseFrame cd msg) \<noteq> StompError.kOk"
  obtain error frame where pf: "parseFrame cd msg = (error, frame)"
    by (cases "parseFrame cd msg")
  define c1 where
    "c1 = post (NotifyConnect kUnexpectedCouldNotCreateValidFrame)
            (log_error ''OnWsMessage: {}: {}'' c)"
  have run: "OnWsMessage cd ec msg c = dispatchFrame frame c1"
    using bad pf by (simp add: OnWsMessage_def c1_def)
  have c1: "strand c1 = strand c @ [NotifyConnect kUnexpectedCouldNotCreateValidFrame]"
    "log c1 = log c @ [''OnWsMessage: {}: {}'']"
    by (simp_all add: c1_def post_def log_error_def)
  obtain ts where ts: "strand (dispatchFrame frame c1) = strand c1 @ ts"
    using dispatchFrame_strand [of frame c1] by blast
  obtain ls where ls: "log (dispatchFrame frame c1) = log c1 @ ls"
    using dispatchFrame_log [of frame c1] by blast
  have p: "posted c (OnWsMessage cd ec msg c)
             = NotifyConnect kUnexpectedCouldNotCreateValidFrame # ts"
    by (simp add: run ts c1 posted_def)
  have l: "logged c (OnWsMessage cd ec msg c) = ''OnWsMessage: {}: {}'' # ls"
    by (simp add: run ls c1 logged_def)
  have i: "invocations (OnWsMessage cd ec msg c) (take 1 (posted c (OnWsMessage cd ec msg c)))
       = (case onConnect c of None \<Rightarrow> []
          | Some h \<Rightarrow> [Invoke h kUnexpectedCouldNotCreateValidFrame])"
    by (simp add: p invocations_def OnWsMessage_frame call1_def split: option.splits)
  show "take 1 (posted c (OnWsMessage cd ec msg c))
       = [NotifyConnect kUnexpectedCouldNotCreateValidFrame] \<and>
     invocations (OnWsMessage cd ec msg c) (take 1 (posted c (OnWsMessage cd ec msg c)))
       = (case onConnect c of None \<Rightarrow> []
          | Some h \<Rightarrow> [Invoke h kUnexpectedCouldNotCreateValidFrame]) \<and>
     take 1 (logged c (OnWsMessage cd ec msg c)) = [''OnWsMessage: {}: {}''] \<and>
     called c (OnWsMessage cd ec msg c) = [] \<and>
     subscriptions (OnWsMessage cd ec msg c) = subscriptions c"
    using i by (simp add: p l called_def OnWsMessage_frame)
qed

theorem malformed_message_witness:
  "take 1 (posted sampleClient (OnWsMessage stompCodec 0 ''Not a STOMP frame'' sampleClient))
     = [NotifyConnect kUnexpectedCouldNotCreateValidFrame]
   \<and> invocations (OnWsMessage stompCodec 0 ''Not a STOMP frame'' sampleClient)
        (take 1 (posted sampleClient
                   (OnWsMessage stompCodec 0 ''Not a STOMP frame'' sampleClient)))
       = [Invoke ''onConnect'' kUnexpectedCouldNotCreateValidFrame]
   \<and> called sampleClient (OnWsMessage stompCodec 0 ''Not a STOMP frame'' sampleClient) = []
   \<and> subscriptions (OnWsMessage stompCodec 0 ''Not a STOMP frame'' sampleClient) ''sub-1''
       = Some sampleSubscription"
proof -
  have h: "fst (parseFrame stompCodec ''Not a STOMP frame'') \<noteq> StompError.kOk"
    by (simp add: stompCodec_rejects)
  have s: "onConnect sampleClient = Some ''onConnect''"
    "subscriptions sampleClient ''sub-1'' = Some sampleSubscription"
    by (simp_all add: sampleClient_def)
  note r = malformed_message [of stompCodec "''Not a STOMP frame''" sampleClient 0,
      THEN mp, OF h]
  from r show ?thesis by (auto simp: s)
qed

text \<open>
  The claim as stated fails on a message without the terminating NUL octet: the codec
  rejects it, and running the tasks that \<^verbatim>\<open>OnWsMessage\<close> posted calls the user's
  \<^verbatim>\<open>onConnect\<close> handler.
\<close>

theorem malformed_message_counterexample:
  "fst (parseFrame stompCodec ''Not a STOMP frame'') \<noteq> StompError.kOk
   \<and> Invoke ''onConnect'' kUnexpectedCouldNotCreateValidFrame
       \<in> set (invocations (OnWsMessage stompCodec 0 ''Not a STOMP frame'' sampleClient)
                (posted sampleClient
                   (OnWsMessage stompCodec 0 ''Not a STOMP frame'' sampleClient)))"
proof -
  have d: "dispatchFrame emptyFrame c
             = log_error ''OnWsMessage: Unexpected STOMP command: {}'' c"
    for c :: "string StompClient"
    by (simp add: dispatchFrame_def emptyFrame_def GetCommand_def)
  show ?thesis
    by (simp add: stompCodec_rejects OnWsMessage_def d effect_defs sampleClient_def
          invocations_single call1_def)
qed

subsection \<open>The value \<^verbatim>\<open>Subscribe\<close> returns\<close>

text \<open>
  Claim C3. \<^verbatim>\<open>Subscribe\<close>, for every codec, endpoint, pair of handlers and client: when
  the building constructor reports an error for the \<^verbatim>\<open>SUBSCRIBE\<close> frame, the call
  returns the empty string; when it reports \<open>kOk\<close>, the call returns the identifier that
  \<^verbatim>\<open>GenerateId\<close> drew. A UUID in text form is never empty, and for a non-empty
  identifier the value returned is non-empty if and only if the frame was constructible.
\<close>

theorem subscribe_result:
  fixes c :: "'h StompClient"
  shows
  "(fst (makeFrame cd kSubscribe (subscribeHeaders (uuids c 0) ep)) \<noteq> StompError.kOk \<longrightarrow>
      fst (Subscribe cd ep hS hM c) = [])
   \<and> (fst (makeFrame cd kSubscribe (subscribeHeaders (uuids c 0) ep)) = StompError.kOk \<longrightarrow>
      fst (Subscribe cd ep hS hM c) = uuids c 0)
   \<and> (uuids c 0 \<noteq> [] \<longrightarrow>
      (fst (Subscribe cd ep hS hM c) \<noteq> []
       \<longleftrightarrow> fst (makeFrame cd kSubscribe (subscribeHeaders (uuids c 0) ep)) = StompError.kOk))"
  by (auto simp: Subscribe_def GenerateId_def split: prod.splits)

theorem subscribe_result_witness:
  "fst (Subscribe stompCodec ''/passengers'' (Some ''onSubscribe'') (Some ''onMessage'')
          sampleClient) = ''3f2504e0-4f89-41d3-9a0c-0305e82c3310''
   \<and> fst (Subscribe rejectingCodec ''/passengers'' (Some ''onSubscribe'') (Some ''onMessage'')
            sampleClient) = []"
proof -
  have u: "uuids sampleClient 0 = ''3f2504e0-4f89-41d3-9a0c-0305e82c3310''"
    by (simp add: sampleClient_def sampleUuids_0)
  have ok: "fst (makeFrame stompCodec kSubscribe
                   (subscribeHeaders (uuids sampleClient 0) ''/passengers'')) = StompError.kOk"
    by (rule stompCodec_subscribe)
  have bad: "fst (makeFrame rejectingCodec kSubscribe
                   (subscribeHeaders (uuids sampleClient 0) ''/passengers'')) \<noteq> StompError.kOk"
    by (simp add: rejectingCodec_def)
  from subscribe_result [of stompCodec sampleClient "''/passengers''"
         "Some ''onSubscribe''" "Some ''onMessage''"] ok
  have r1: "fst (Subscribe stompCodec ''/passengers'' (Some ''onSubscribe'')
                   (Some ''onMessage'') sampleClient) = uuids sampleClient 0"
    by blast
  from subscribe_result [of rejectingCodec sampleClient "''/passengers''"
         "Some ''onSubscribe''" "Some ''onMessage''"] bad
  have r2: "fst (Subscribe rejectingCodec ''/passengers'' (Some ''onSubscribe'')
                   (Some ''onMessage'') sampleClient) = []"
    by blast
  from r1 r2 u show ?thesis by simp
qed

subsection \<open>Completion of the \<^verbatim>\<open>SUBSCRIBE\<close> send\<close>

text \<open>
  Claim C4. Take a \<^verbatim>\<open>Subscribe\<close> whose frame was constructible, on a client whose
  earlier transport calls have all completed, so that the next completion is that of
  this send. \<^verbatim>\<open>Subscribe\<close> hands the transport the frame together with the generated id
  and the subscription (endpoint, onSubscribe, onMessage), and the completion runs
  \<^verbatim>\<open>OnWsSendSubscribe\<close> with them. If the send completes without
  error and the id is fresh (no key of the registry, as a new UUID is), the registry
  afterwards is the old one with the subscription stored under the generated id, no task
  is posted, and the subscription stays there whatever frames arrive later, a
  \<^verbatim>\<open>RECEIPT\<close> or none. If the send completes with an error, the registry is as before
  and exactly one task is posted; running it calls \<^verbatim>\<open>onSubscribe\<close> with
  \<open>kCouldNotSendSubscribeFrame\<close> and the empty id (nothing, when the handler is null).
  The last two parts say the same of \<^verbatim>\<open>OnWsSendSubscribe\<close> on any client, whatever
  happened between the send and its completion.
\<close>

theorem subscribe_send_completion:
  fixes c :: "'h StompClient"
  shows
  "(fst (makeFrame cd kSubscribe (subscribeHeaders (uuids c 0) ep)) = StompError.kOk
     \<and> completed c = length (ws c) \<longrightarrow>
    (let sub = \<lparr>endpoint = ep, onSubscribe = hS, onMessage = hM\<rparr>;
         sid = fst (Subscribe cd ep hS hM c);
         c1 = snd (Subscribe cd ep hS hM c);
         c2 = complete cd ec c1
     in sid = uuids c 0 \<and>
        called c c1
          = [WsSendSubscribe
               (frameToString cd (snd (makeFrame cd kSubscribe (subscribeHeaders sid ep))))
               sid sub] \<and>
        c2 = OnWsSendSubscribe ec sid sub (c1\<lparr>completed := Suc (completed c)\<rparr>) \<and>
        (ec = 0 \<and> subscriptions c sid = None \<longrightarrow>
           subscriptions c2 = (subscriptions c)(sid \<mapsto> sub) \<and>
           posted c c2 = [] \<and>
           (\<forall>msgs. subscriptions (receiveAll cd msgs c2) sid = Some sub)) \<and>
        (ec \<noteq> 0 \<longrightarrow>
           subscriptions c2 = subscriptions c \<and>
           posted c c2 = [NotifySubscribe hS kCouldNotSendSubscribeFrame []] \<and>
           invocations c2 (posted c c2)
             = (case hS of None \<Rightarrow> []
                | Some h \<Rightarrow> [InvokeWith h kCouldNotSendSubscribeFrame []]))))
   \<and> (\<forall>k s x. subscriptions x k = None \<longrightarrow>
         subscriptions (OnWsSendSubscribe 0 k s x) = (subscriptions x)(k \<mapsto> s) \<and>
         posted x (OnWsSendSubscribe 0 k s x) = [])
   \<and> (\<forall>k s x. ec \<noteq> 0 \<longrightarrow>
         subscriptions (OnWsSendSubscribe ec k s x) = subscriptions x \<and>
         posted x (OnWsSendSubscribe ec k s x)
           = [NotifySubscribe (onSubscribe s) kCouldNotSendSubscribeFrame []] \<and>
         invocations (OnWsSendSubscribe ec k s x) (posted x (OnWsSendSubscribe ec k s x))
           = (case onSubscribe s of None \<Rightarrow> []
              | Some h \<Rightarrow> [InvokeWith h kCouldNotSendSubscribeFrame []]))"
proof (intro conjI impI)
  assume a: "fst (makeFrame cd kSubscribe (subscribeHeaders (uuids c 0) ep)) = StompError.kOk
     \<and> completed c = length (ws c)"
  obtain error frame where mk:
    "makeFrame cd kSubscribe (subscribeHeaders (uuids c 0) ep) = (error, frame)"
    by (cases "makeFrame cd kSubscribe (subscribeHeaders (uuids c 0) ep)")
  with a have ok: "error = StompError.kOk" by simp
  define sub :: "'h Subscription" where
    "sub = \<lparr>endpoint = ep, onSubscribe = hS, onMessage = hM\<rparr>"
  define c0 where "c0 = c\<lparr>uuids := (\<lambda>n. uuids c (Suc n))\<rparr>"
  have s: "Subscribe cd ep hS hM c
             = (uuids c 0,
                call_ws (WsSendSubscribe (frameToString cd frame) (uuids c 0) sub) c0)"
    by (simp add: Subscribe_def GenerateId_def mk ok sub_def c0_def)
  have comp: "complete cd ec (snd (Subscribe cd ep hS hM c))
                = OnWsSendSubscribe ec (uuids c 0) sub
                    ((call_ws (WsSendSubscribe (frameToString cd frame) (uuids c 0) sub) c0)
                       \<lparr>completed := Suc (completed c)\<rparr>)"
    using a by (simp add: s complete_def call_ws_def c0_def nth_append)
  show "(let sub = \<lparr>endpoint = ep, onSubscribe = hS, onMessage = hM\<rparr>;
         sid = fst (Subscribe cd ep hS hM c);
         c1 = snd (Subscribe cd ep hS hM c);
         c2 = complete cd ec c1
     in sid = uuids c 0 \<and>
        called c c1
          = [WsSendSubscribe
               (frameToString cd (snd (makeFrame cd kSubscribe (subscribeHeaders sid ep))))
               sid sub] \<and>
        c2 = OnWsSendSubscribe ec sid sub (c1\<lparr>completed := Suc (completed c)\<rparr>) \<and>
        (ec = 0 \<and> subscriptions c sid = None \<longrightarrow>
           subscriptions c2 = (subscriptions c)(sid \<mapsto> sub) \<and>
           posted c c2 = [] \<and>
           (\<forall>msgs. subscriptions (receiveAll cd msgs c2) sid = Some sub)) \<and>
        (ec \<noteq> 0 \<longrightarrow>
           subscriptions c2 = subscriptions c \<and>
           posted c c2 = [NotifySubscribe hS kCouldNotSendSubscribeFrame []] \<and>
           invocations c2 (posted c c2)
             = (case hS of None \<Rightarrow> []
                | Some h \<Rightarrow> [InvokeWith h kCouldNotSendSubscribeFrame []])))"
    unfolding Let_def comp
    by (simp add: s mk sub_def [symmetric] receiveAll_frame)
       (auto simp: OnWsSendSubscribe_def emplace_def effect_defs c0_def sub_def
          invocations_single call2_def split: option.splits)
next
  show "\<forall>k s x. subscriptions x k = None \<longrightarrow>
         subscriptions (OnWsSendSubscribe 0 k s x) = (subscriptions x)(k \<mapsto> s) \<and>
         posted x (OnWsSendSubscribe 0 k s x) = []"
    by (simp add: OnWsSendSubscribe_def emplace_def effect_defs)
next
  show "\<forall>k s x. ec \<noteq> 0 \<longrightarrow>
         subscriptions (OnWsSendSubscribe ec k s x) = subscriptions x \<and>
         posted x (OnWsSendSubscribe ec k s x)
           = [NotifySubscribe (onSubscribe s) kCouldNotSendSubscribeFrame []] \<and>
         invocations (OnWsSendSubscribe ec k s x) (posted x (OnWsSendSubscribe ec k s x))
           = (case onSubscribe s of None \<Rightarrow> []
              | Some h \<Rightarrow> [InvokeWith h kCouldNotSendSubscribeFrame []])"
    by (auto simp: OnWsSendSubscribe_def effect_defs invocations_single call2_def
          split: option.splits)
qed

theorem subscribe_send_completion_witness:
  "subscriptions
     (complete stompCodec 0
        (snd (Subscribe stompCodec ''/passengers'' (Some ''onSubscribe'') (Some ''onMessage'')
                sampleClient)))
     ''3f2504e0-4f89-41d3-9a0c-0305e82c3310'' = Some sampleSubscription
   \<and> subscriptions
       (complete stompCodec 1
          (snd (Subscribe stompCodec ''/passengers'' (Some ''onSubscribe'')
                  (Some ''onMessage'') sampleClient)))
     = subscriptions sampleClient
   \<and> invocations
       (complete stompCodec 1
          (snd (Subscribe stompCodec ''/passengers'' (Some ''onSubscribe'')
                  (Some ''onMessage'') sampleClient)))
       (posted sampleClient
          (complete stompCodec 1
             (snd (Subscribe stompCodec ''/passengers'' (Some ''onSubscribe'')
                     (Some ''onMessage'') sampleClient))))
     = [InvokeWith ''onSubscribe'' kCouldNotSendSubscribeFrame []]"
proof -
  have u: "uuids sampleClient 0 = ''3f2504e0-4f89-41d3-9a0c-0305e82c3310''"
    by (simp add: sampleClient_def sampleUuids_0)
  have h: "fst (makeFrame stompCodec kSubscribe
                  (subscribeHeaders (uuids sampleClient 0) ''/passengers'')) = StompError.kOk
           \<and> completed sampleClient = length (ws sampleClient)"
    by (simp add: stompCodec_subscribe) (simp add: sampleClient_def)
  have fresh: "subscriptions sampleClient ''3f2504e0-4f89-41d3-9a0c-0305e82c3310'' = None"
    by (simp add: sampleClient_def)
  have sub: "\<lparr>endpoint = ''/passengers'', onSubscribe = Some ''onSubscribe'',
              onMessage = Some ''onMessage''\<rparr> = sampleSubscription"
    by (simp add: sampleSubscription_def)
  note r0 = subscribe_send_completion
      [where cd = stompCodec and c = sampleClient and ep = "''/passengers''"
         and hS = "Some ''onSubscribe''" and hM = "Some ''onMessage''" and ec = 0,
       THEN conjunct1, unfolded Let_def, THEN mp, OF h]
  note r1 = subscribe_send_completion
      [where cd = stompCodec and c = sampleClient and ep = "''/passengers''"
         and hS = "Some ''onSubscribe''" and hM = "Some ''onMessage''" and ec = 1,
       THEN conjunct1, unfolded Let_def, THEN mp, OF h]
  from r0 have id: "fst (Subscribe stompCodec ''/passengers'' (Some ''onSubscribe'')
                           (Some ''onMessage'') sampleClient)
                      = ''3f2504e0-4f89-41d3-9a0c-0305e82c3310''"
    by (simp add: u)
  from r0 fresh have stored:
    "subscriptions
       (complete stompCodec 0
          (snd (Subscribe stompCodec ''/passengers'' (Some ''onSubscribe'')
                  (Some ''onMessage'') sampleClient)))
     = (subscriptions sampleClient)
         (''3f2504e0-4f89-41d3-9a0c-0305e82c3310'' \<mapsto> sampleSubscription)"
    unfolding id sub by blast
  from r1 have failed:
    "subscriptions
       (complete stompCodec 1
          (snd (Subscribe stompCodec ''/passengers'' (Some ''onSubscribe'')
                  (Some ''onMessage'') sampleClient)))
     = subscriptions sampleClient
     \<and> invocations
       (complete stompCodec 1
          (snd (Subscribe stompCodec ''/passengers'' (Some ''onSubscribe'')
                  (Some ''onMessage'') sampleClient)))
       (posted sampleClient
          (complete stompCodec 1
             (snd (Subscribe stompCodec ''/passengers'' (Some ''onSubscribe'')
                     (Some ''onMessage'') sampleClient))))
     = [InvokeWith ''onSubscribe'' kCouldNotSendSubscribeFrame []]"
    by auto
  from stored failed show ?thesis by simp
qed

subsection \<open>Transport failures before \<^verbatim>\<open>CONNECTED\<close>\<close>

lemma connectingClient_state:
  "\<exists>payload. ws connectingClient = [WsConnect, WsSendStomp payload]"
  "completed connectingClient = 1"
  "strand connectingClient = []"
  "onConnect connectingClient = Some ''onConnect''"
  "onDisconnect connectingClient = Some ''onDisconnect''"
  by (simp_all add: connectingClient_def complete_def Connect_def freshClient_def
        StompClient_new_def call_ws_def OnWsConnect_def stompCodec_def StompFrame_make_def
        stompHeaders_def validateFrame_def Let_def)

text \<open>
  Claim C5, as amended. The transport can fail in three ways before a \<^verbatim>\<open>CONNECTED\<close>
  frame arrives, and the client answers each in its own way. When the connection does
  not open (\<^verbatim>\<open>OnWsConnect\<close> with an error code), the client posts exactly one task, the
  \<^verbatim>\<open>onConnect_\<close> notification with \<open>kCouldNotConnectToWebSocketsServer\<close>: running it calls
  the \<^verbatim>\<open>onConnect\<close> handler once with that error (nothing, when the handler is null);
  no \<^verbatim>\<open>onDisconnect_\<close> notification is posted and no call is made on the transport; the
  same holds along the path from a new client, \<^verbatim>\<open>Connect\<close> and then the transport
  completing that call with an error. When the send of the \<^verbatim>\<open>STOMP\<close> frame fails
  (\<^verbatim>\<open>OnWsSendStomp\<close> with an error code, which is what the completion of that send runs),
  exactly one task is posted, the \<^verbatim>\<open>onConnect_\<close> notification with
  \<open>kCouldNotSendStompFrame\<close>, and again no \<^verbatim>\<open>onDisconnect_\<close> notification. When the
  transport reports a disconnection (\<^verbatim>\<open>OnWsDisconnect\<close> with an error code), exactly one
  task is posted, the \<^verbatim>\<open>onDisconnect_\<close> notification with
  \<open>kWebSocketsServerDisconnected\<close>, and no \<^verbatim>\<open>onConnect_\<close> notification. (The claim as
  stated, \<open>kCouldNotConnectToWebSocketsServer\<close> and no \<^verbatim>\<open>onDisconnect\<close> for every such
  failure, holds of the first kind only: see the counterexample.)
\<close>

theorem connect_failure:
  fixes c :: "'h StompClient"
  shows
  "(ec \<noteq> 0 \<longrightarrow>
     posted c (OnWsConnect cd ec c) = [NotifyConnect kCouldNotConnectToWebSocketsServer] \<and>
     invocations (OnWsConnect cd ec c) (posted c (OnWsConnect cd ec c))
       = (case onConnect c of None \<Rightarrow> []
          | Some h \<Rightarrow> [Invoke h kCouldNotConnectToWebSocketsServer]) \<and>
     (\<forall>e. NotifyDisconnect e \<notin> set (posted c (OnWsConnect cd ec c))) \<and>
     called c (OnWsConnect cd ec c) = [] \<and>
     (let c1 = Connect user pass hC hD (StompClient_new u target prt rng :: 'h StompClient);
          c2 = complete cd ec c1
      in strand c2 = [NotifyConnect kCouldNotConnectToWebSocketsServer] \<and>
         invocations c2 (strand c2)
           = (case hC of None \<Rightarrow> []
              | Some h \<Rightarrow> [Invoke h kCouldNotConnectToWebSocketsServer]) \<and>
         called c1 c2 = []))
   \<and> (ec \<noteq> 0 \<longrightarrow>
     posted c (OnWsSendStomp ec c) = [NotifyConnect kCouldNotSendStompFrame] \<and>
     invocations (OnWsSendStomp ec c) (posted c (OnWsSendStomp ec c))
       = (case onConnect c of None \<Rightarrow> []
          | Some h \<Rightarrow> [Invoke h kCouldNotSendStompFrame]) \<and>
     (\<forall>e. NotifyDisconnect e \<notin> set (posted c (OnWsSendStomp ec c))) \<and>
     called c (OnWsSendStomp ec c) = [])
   \<and> (\<forall>payload. completed c < length (ws c) \<and> ws c ! completed c = WsSendStomp payload \<longrightarrow>
         complete cd ec c = OnWsSendStomp ec (c\<lparr>completed := Suc (completed c)\<rparr>))
   \<and> (ec \<noteq> 0 \<longrightarrow>
     posted c (OnWsDisconnect ec c) = [NotifyDisconnect kWebSocketsServerDisconnected] \<and>
     invocations (OnWsDisconnect ec c) (posted c (OnWsDisconnect ec c))
       = (case onDisconnect c of None \<Rightarrow> []
          | Some h \<Rightarrow> [Invoke h kWebSocketsServerDisconnected]) \<and>
     (\<forall>e. NotifyConnect e \<notin> set (posted c (OnWsDisconnect ec c))) \<and>
     called c (OnWsDisconnect ec c) = [])"
  by (auto simp: OnWsConnect_def OnWsSendStomp_def OnWsDisconnect_def complete_def
        Connect_def StompClient_new_def effect_defs invocations_single call1_def Let_def
        split: option.splits)

theorem connect_failure_witness:
  "invocations (OnWsConnect stompCodec 1 sampleClient)
     (posted sampleClient (OnWsConnect stompCodec 1 sampleClient))
     = [Invoke ''onConnect'' kCouldNotConnectToWebSocketsServer]
   \<and> invocations
       (complete stompCodec 1
          (Connect ''some_username'' ''some_password_123'' (Some ''onConnect'')
             (Some ''onDisconnect'') freshClient))
       (strand
          (complete stompCodec 1
             (Connect ''some_username'' ''some_password_123'' (Some ''onConnect'')
                (Some ''onDisconnect'') freshClient)))
     = [Invoke ''onConnect'' kCouldNotConnectToWebSocketsServer]
   \<and> invocations (OnWsSendStomp 1 connectingClient)
       (posted connectingClient (OnWsSendStomp 1 connectingClient))
     = [Invoke ''onConnect'' kCouldNotSendStompFrame]
   \<and> complete stompCodec 1 connectingClient
     = OnWsSendStomp 1 (connectingClient\<lparr>completed := Suc (completed connectingClient)\<rparr>)
   \<and> invocations (OnWsDisconnect 1 connectingClient)
       (posted connectingClient (OnWsDisconnect 1 connectingClient))
     = [Invoke ''onDisconnect'' kWebSocketsServerDisconnected]"
proof -
  have h: "(1 :: error_code) \<noteq> 0" by simp
  have s: "onConnect sampleClient = Some ''onConnect''" by (simp add: sampleClient_def)
  note r = connect_failure
      [where ec = 1 and cd = stompCodec and c = sampleClient
         and user = "''some_username''" and pass = "''some_password_123''"
         and hC = "Some ''onConnect''" and hD = "Some ''onDisconnect''"
         and u = "''ltnm.learncppthroughprojects.com''"
         and target = "''/network-events''" and prt = "''443''" and rng = sampleUuids,
       THEN conjunct1, unfolded Let_def, THEN mp, OF h]
  from r have open_fails:
    "invocations (OnWsConnect stompCodec 1 sampleClient)
       (posted sampleClient (OnWsConnect stompCodec 1 sampleClient))
       = [Invoke ''onConnect'' kCouldNotConnectToWebSocketsServer]
     \<and> invocations
         (complete stompCodec 1
            (Connect ''some_username'' ''some_password_123'' (Some ''onConnect'')
               (Some ''onDisconnect'') freshClient))
         (strand
            (complete stompCodec 1
               (Connect ''some_username'' ''some_password_123'' (Some ''onConnect'')
                  (Some ''onDisconnect'') freshClient)))
       = [Invoke ''onConnect'' kCouldNotConnectToWebSocketsServer]"
    by (auto simp: s freshClient_def)
  note q = connect_failure
      [where ec = 1 and cd = stompCodec and c = connectingClient
         and user = "''some_username''" and pass = "''some_password_123''"
         and hC = "Some ''onConnect''" and hD = "Some ''onDisconnect''"
         and u = "''ltnm.learncppthroughprojects.com''"
         and target = "''/network-events''" and prt = "''443''" and rng = sampleUuids,
       THEN conjunct2]
  note q1 = q [THEN conjunct1, THEN mp, OF h, THEN conjunct2, THEN conjunct1]
  from q1 have send_fails:
    "invocations (OnWsSendStomp 1 connectingClient)
       (posted connectingClient (OnWsSendStomp 1 connectingClient))
       = [Invoke ''onConnect'' kCouldNotSendStompFrame]"
    by (simp add: connectingClient_state)
  obtain payload where w: "ws connectingClient = [WsConnect, WsSendStomp payload]"
    using connectingClient_state(1) by blast
  have g: "completed connectingClient < length (ws connectingClient)
        \<and> ws connectingClient ! completed connectingClient = WsSendStomp payload"
    by (simp add: w connectingClient_state)
  note q2 = q [THEN conjunct2, THEN conjunct1, THEN spec, THEN mp, OF g]
  from q2 have completion:
    "complete stompCodec 1 connectingClient
       = OnWsSendStomp 1 (connectingClient\<lparr>completed := Suc (completed connectingClient)\<rparr>)"
    by blast
  note q3 = q [THEN conjunct2, THEN conjunct2, THEN mp, OF h, THEN conjunct2, THEN conjunct1]
  from q3 have disconnects:
    "invocations (OnWsDisconnect 1 connectingClient)
       (posted connectingClient (OnWsDisconnect 1 connectingClient))
       = [Invoke ''onDisconnect'' kWebSocketsServerDisconnected]"
    by (simp add: connectingClient_state)
  from open_fails send_fails completion disconnects show ?thesis by blast
qed

text \<open>
  The claim as stated fails once the connection has opened and before any \<^verbatim>\<open>CONNECTED\<close>
  frame has arrived. If the transport then fails to send the \<^verbatim>\<open>STOMP\<close> frame, the
  \<^verbatim>\<open>onConnect\<close> handler is called with \<open>kCouldNotSendStompFrame\<close>, not with
  \<open>kCouldNotConnectToWebSocketsServer\<close>; if it reports a disconnection, the
  \<^verbatim>\<open>onDisconnect\<close> handler is called and \<^verbatim>\<open>onConnect\<close> is not.
\<close>

theorem connect_failure_counterexample:
  "strand connectingClient = []
   \<and> invocations (complete stompCodec 1 connectingClient)
       (posted connectingClient (complete stompCodec 1 connectingClient))
     = [Invoke ''onConnect'' kCouldNotSendStompFrame]
   \<and> invocations (OnWsDisconnect 1 connectingClient)
       (posted connectingClient (OnWsDisconnect 1 connectingClient))
     = [Invoke ''onDisconnect'' kWebSocketsServerDisconnected]"
proof -
  obtain payload where w: "ws connectingClient = [WsConnect, WsSendStomp payload]"
    using connectingClient_state(1) by blast
  have c: "complete stompCodec 1 connectingClient
             = OnWsSendStomp 1
                 (connectingClient\<lparr>completed := Suc (completed connectingClient)\<rparr>)"
    by (simp add: complete_def w connectingClient_state)
  show ?thesis
    by (simp add: c OnWsSendStomp_def OnWsDisconnect_def effect_defs invocations_single
          call1_def connectingClient_state)
qed

subsection \<open>Inbound \<^verbatim>\<open>RECEIPT\<close> frames\<close>

text \<open>
  Claim C6. \<^verbatim>\<open>HandleSubscriptionReceipt\<close>, for every frame and every client. If the
  frame's \<^verbatim>\<open>receipt-id\<close> header is the id of a stored subscription, exactly one task is
  posted; running it calls that subscription's \<^verbatim>\<open>onSubscribe\<close> once with \<open>kOk\<close> and
  that id (nothing, when the handler is null), and the registry is as before. If it is
  the id of no stored subscription, an error is logged and nothing is posted, so no
  handler runs. An inbound message that parses to a \<^verbatim>\<open>RECEIPT\<close> frame is handled by this
  function and nothing else.
\<close>

theorem receipt_dispatch:
  fixes c :: "'h StompClient"
  shows
  "(\<forall>s. subscriptions c (GetHeaderValue frame kReceiptId) = Some s \<longrightarrow>
      posted c (HandleSubscriptionReceipt frame c)
        = [NotifySubscribe (onSubscribe s) StompClientError.kOk
             (GetHeaderValue frame kReceiptId)] \<and>
      invocations (HandleSubscriptionReceipt frame c)
          (posted c (HandleSubscriptionReceipt frame c))
        = (case onSubscribe s of None \<Rightarrow> []
           | Some h \<Rightarrow> [InvokeWith h StompClientError.kOk (GetHeaderValue frame kReceiptId)]) \<and>
      subscriptions (HandleSubscriptionReceipt frame c) = subscriptions c)
   \<and> (subscriptions c (GetHeaderValue frame kReceiptId) = None \<longrightarrow>
      posted c (HandleSubscriptionReceipt frame c) = [] \<and>
      logged c (HandleSubscriptionReceipt frame c)
        = [''HandleSubscriptionReceipt: Cannot find subscription''] \<and>
      subscriptions (HandleSubscriptionReceipt frame c) = subscriptions c)
   \<and> (\<forall>cd ec msg. parseFrame cd msg = (StompError.kOk, frame)
          \<and> GetCommand frame = StompCommand.kReceipt \<longrightarrow>
        OnWsMessage cd ec msg c = HandleSubscriptionReceipt frame c)"
  by (auto simp: HandleSubscriptionReceipt_def OnWsMessage_def dispatchFrame_def effect_defs
        invocations_single call2_def split: option.splits)

theorem receipt_dispatch_witness:
  "invocations (HandleSubscriptionReceipt sampleReceipt sampleClient)
     (posted sampleClient (HandleSubscriptionReceipt sampleReceipt sampleClient))
     = [InvokeWith ''onSubscribe'' StompClientError.kOk ''sub-1'']
   \<and> posted sampleClient (HandleSubscriptionReceipt strayReceipt sampleClient) = []
   \<and> logged sampleClient (HandleSubscriptionReceipt strayReceipt sampleClient)
       = [''HandleSubscriptionReceipt: Cannot find subscription'']"
proof -
  have h1: "subscriptions sampleClient (GetHeaderValue sampleReceipt kReceiptId)
              = Some sampleSubscription"
    by (simp add: sample_defs)
  have h2: "subscriptions sampleClient (GetHeaderValue strayReceipt kReceiptId) = None"
    by (simp add: sample_defs)
  have s: "onSubscribe sampleSubscription = Some ''onSubscribe''"
    "GetHeaderValue sampleReceipt kReceiptId = ''sub-1''"
    by (simp_all add: sample_defs)
  from receipt_dispatch [of sampleClient sampleReceipt] h1
  have r1: "invocations (HandleSubscriptionReceipt sampleReceipt sampleClient)
     (posted sampleClient (HandleSubscriptionReceipt sampleReceipt sampleClient))
     = (case onSubscribe sampleSubscription of None \<Rightarrow> []
        | Some h \<Rightarrow> [InvokeWith h StompClientError.kOk
                       (GetHeaderValue sampleReceipt kReceiptId)])"
    by blast
  from receipt_dispatch [of sampleClient strayReceipt] h2
  have r2: "posted sampleClient (HandleSubscriptionReceipt strayReceipt sampleClient) = []
     \<and> logged sampleClient (HandleSubscriptionReceipt strayReceipt sampleClient)
       = [''HandleSubscriptionReceipt: Cannot find subscription'']"
    by blast
  from r1 r2 show ?thesis by (simp add: s)
qed

subsection \<open>\<^verbatim>\<open>Close\<close>\<close>

text \<open>
  The registry changes in two places only, \<^verbatim>\<open>Close\<close> and the completion of a
  \<^verbatim>\<open>SUBSCRIBE\<close> send without error: an empty registry stays empty under every other
  event.
\<close>

lemma clientStep_keeps_empty:
  "subscriptions c = Map.empty \<Longrightarrow> \<not> subscribeSendSucceeds ev c
     \<Longrightarrow> subscriptions (clientStep cd ev c) = Map.empty"
  by (cases ev)
     (auto simp: Connect_def Subscribe_def GenerateId_def Close_def complete_def
        OnWsConnect_def OnWsSendStomp_def OnWsSendSubscribe_def OnWsClose_def
        OnWsDisconnect_def OnWsMessage_frame effect_defs Let_def
        split: prod.splits ws_call.splits)

lemma clientRun_keeps_empty:
  "subscriptions c = Map.empty \<Longrightarrow> noSubscribeSendSucceeds cd evs c
     \<Longrightarrow> subscriptions (clientRun cd evs c) = Map.empty"
  by (induction evs arbitrary: c) (simp_all add: clientStep_keeps_empty)

lemma subscribingClient_state:
  "\<exists>payload.
     ws subscribingClient
       = [WsConnect,
          WsSendSubscribe payload ''3f2504e0-4f89-41d3-9a0c-0305e82c3310'' sampleSubscription]"
  "completed subscribingClient = 1"
  "strand subscribingClient = []"
  by (simp_all add: subscribingClient_def Subscribe_def GenerateId_def sampleClient_def
        sampleUuids_0 stompCodec_def StompFrame_make_def subscribeHeaders_def
        validateFrame_def call_ws_def sampleSubscription_def Let_def)

text \<open>
  Claim C7, as amended. On a client on which \<^verbatim>\<open>Connect\<close> was never called and which
  has no transport call outstanding, \<^verbatim>\<open>Close\<close> itself posts nothing, and when the
  transport completes the call (with an error, as a transport that never connected does)
  exactly one task is posted: running it calls the supplied \<^verbatim>\<open>onClose\<close> once with
  \<open>kCouldNotCloseWebSocketsConnection\<close> (nothing, when the handler is null), and no other
  handler. On every client, \<^verbatim>\<open>Close\<close> first clears the registry and then makes one
  call on the transport, the \<^verbatim>\<open>Close\<close> carrying the handler, so the registry is empty
  when that call is made and after it. However many frames arrive afterwards, the
  registry stays empty, and a \<^verbatim>\<open>RECEIPT\<close> among them is logged as an unknown subscription
  and dropped. More generally, whatever happens after the \<^verbatim>\<open>Close\<close> (calls of the user,
  completions, frames, disconnections, tasks run), as long as no \<^verbatim>\<open>SUBSCRIBE\<close> send
  completes without error the registry stays empty and a \<^verbatim>\<open>RECEIPT\<close> is dropped. (The
  claim as stated, that any \<^verbatim>\<open>RECEIPT\<close> after \<^verbatim>\<open>Close\<close> is dropped, fails when such a
  send does complete: see the counterexample.)
\<close>

theorem close_contract:
  fixes c :: "'h StompClient"
  shows
  "(WsConnect \<notin> set (ws c) \<and> completed c = length (ws c) \<longrightarrow>
      posted c (Close onClose c) = [] \<and>
      posted (Close onClose c) (complete cd (closeCompletion (ws c) ec) (Close onClose c))
        = [NotifyClose onClose kCouldNotCloseWebSocketsConnection] \<and>
      invocations (complete cd (closeCompletion (ws c) ec) (Close onClose c))
          (posted (Close onClose c)
             (complete cd (closeCompletion (ws c) ec) (Close onClose c)))
        = (case onClose of None \<Rightarrow> []
           | Some h \<Rightarrow> [Invoke h kCouldNotCloseWebSocketsConnection]))
   \<and> Close onClose c = call_ws (WsClose onClose) (c\<lparr>subscriptions := Map.empty\<rparr>)
   \<and> subscriptions (Close onClose c) = Map.empty
   \<and> called c (Close onClose c) = [WsClose onClose]
   \<and> subscriptions (receiveAll cd msgs (Close onClose c)) = Map.empty
   \<and> HandleSubscriptionReceipt frame (receiveAll cd msgs (Close onClose c))
       = log_error ''HandleSubscriptionReceipt: Cannot find subscription''
           (receiveAll cd msgs (Close onClose c))
   \<and> (noSubscribeSendSucceeds cd evs (Close onClose c) \<longrightarrow>
        subscriptions (clientRun cd evs (Close onClose c)) = Map.empty \<and>
        HandleSubscriptionReceipt frame (clientRun cd evs (Close onClose c))
          = log_error ''HandleSubscriptionReceipt: Cannot find subscription''
              (clientRun cd evs (Close onClose c)) \<and>
        posted (clientRun cd evs (Close onClose c))
          (HandleSubscriptionReceipt frame (clientRun cd evs (Close onClose c))) = [])"
proof -
  have cleared: "subscriptions (Close onClose c) = Map.empty"
    by (simp add: Close_def call_ws_def)
  have later: "noSubscribeSendSucceeds cd evs (Close onClose c) \<longrightarrow>
        subscriptions (clientRun cd evs (Close onClose c)) = Map.empty \<and>
        HandleSubscriptionReceipt frame (clientRun cd evs (Close onClose c))
          = log_error ''HandleSubscriptionReceipt: Cannot find subscription''
              (clientRun cd evs (Close onClose c)) \<and>
        posted (clientRun cd evs (Close onClose c))
          (HandleSubscriptionReceipt frame (clientRun cd evs (Close onClose c))) = []"
    using clientRun_keeps_empty [OF cleared, of cd evs]
    by (simp add: HandleSubscriptionReceipt_def effect_defs)
  have first: "(WsConnect \<notin> set (ws c) \<and> completed c = length (ws c) \<longrightarrow>
      posted c (Close onClose c) = [] \<and>
      posted (Close onClose c) (complete cd (closeCompletion (ws c) ec) (Close onClose c))
        = [NotifyClose onClose kCouldNotCloseWebSocketsConnection] \<and>
      invocations (complete cd (closeCompletion (ws c) ec) (Close onClose c))
          (posted (Close onClose c)
             (complete cd (closeCompletion (ws c) ec) (Close onClose c)))
        = (case onClose of None \<Rightarrow> []
           | Some h \<Rightarrow> [Invoke h kCouldNotCloseWebSocketsConnection]))
   \<and> Close onClose c = call_ws (WsClose onClose) (c\<lparr>subscriptions := Map.empty\<rparr>)
   \<and> subscriptions (Close onClose c) = Map.empty
   \<and> called c (Close onClose c) = [WsClose onClose]
   \<and> subscriptions (receiveAll cd msgs (Close onClose c)) = Map.empty
   \<and> HandleSubscriptionReceipt frame (receiveAll cd msgs (Close onClose c))
       = log_error ''HandleSubscriptionReceipt: Cannot find subscription''
           (receiveAll cd msgs (Close onClose c))"
    by (auto simp: Close_def complete_def closeCompletion_def operation_aborted_def
          OnWsClose_def HandleSubscriptionReceipt_def receiveAll_frame effect_defs nth_append
          invocations_single call1_def split: option.splits)
  from first later show ?thesis by blast
qed

theorem close_contract_witness:
  "invocations
     (complete stompCodec (closeCompletion ([] :: string ws_call list) 0)
        (Close (Some ''onClose'') freshClient))
     (posted (Close (Some ''onClose'') freshClient)
        (complete stompCodec (closeCompletion ([] :: string ws_call list) 0)
           (Close (Some ''onClose'') freshClient)))
     = [Invoke ''onClose'' kCouldNotCloseWebSocketsConnection]
   \<and> posted freshClient
       (Close (Some ''onClose'') freshClient) = []
   \<and> noSubscribeSendSucceeds stompCodec [TransportCompletes 1, TransportDisconnects 1]
       closingClient
   \<and> posted (clientRun stompCodec [TransportCompletes 1, TransportDisconnects 1] closingClient)
       (HandleSubscriptionReceipt lateReceipt
          (clientRun stompCodec [TransportCompletes 1, TransportDisconnects 1] closingClient))
     = []"
proof -
  have w: "ws freshClient = []"
    by (simp add: freshClient_def StompClient_new_def)
  have h: "WsConnect \<notin> set (ws freshClient)
         \<and> completed freshClient
             = length (ws freshClient)"
    by (simp add: freshClient_def StompClient_new_def)
  note r = close_contract
      [where c = freshClient
         and onClose = "Some ''onClose''" and cd = stompCodec and ec = 0
         and msgs = "[]" and frame = sampleReceipt,
       THEN conjunct1, THEN mp, OF h, unfolded w]
  obtain payload where p:
    "ws subscribingClient
       = [WsConnect,
          WsSendSubscribe payload ''3f2504e0-4f89-41d3-9a0c-0305e82c3310'' sampleSubscription]"
    using subscribingClient_state(1) by blast
  have quiet: "noSubscribeSendSucceeds stompCodec
                 [TransportCompletes 1, TransportDisconnects 1]
                 (Close (Some ''onClose'') subscribingClient)"
    by simp
  note q = close_contract
      [where c = subscribingClient and onClose = "Some ''onClose''" and cd = stompCodec
         and evs = "[TransportCompletes 1, TransportDisconnects 1]" and frame = lateReceipt,
       THEN conjunct2, THEN conjunct2, THEN conjunct2, THEN conjunct2, THEN conjunct2,
       THEN conjunct2, THEN mp, OF quiet, THEN conjunct2, THEN conjunct2]
  from r quiet q show ?thesis
    unfolding closingClient_def by auto
qed

text \<open>
  The claim as stated fails when \<^verbatim>\<open>Close\<close> is called while a \<^verbatim>\<open>SUBSCRIBE\<close> send is
  outstanding. \<^verbatim>\<open>Close\<close> empties the registry; the send then completes without error
  and \<^verbatim>\<open>OnWsSendSubscribe\<close> stores the subscription; the \<^verbatim>\<open>RECEIPT\<close> that arrives for it
  is not dropped: the \<^verbatim>\<open>onSubscribe\<close> handler is called with \<open>kOk\<close> and the id.
  That completion is the one event the amended claim excludes.
\<close>

theorem close_contract_counterexample:
  "subscriptions closingClient = Map.empty
   \<and> \<not> noSubscribeSendSucceeds stompCodec [TransportCompletes 0] closingClient
   \<and> clientRun stompCodec [TransportCompletes 0] closingClient
     = complete stompCodec 0 closingClient
   \<and> invocations
       (HandleSubscriptionReceipt lateReceipt (complete stompCodec 0 closingClient))
       (posted (complete stompCodec 0 closingClient)
          (HandleSubscriptionReceipt lateReceipt (complete stompCodec 0 closingClient)))
     = [InvokeWith ''onSubscribe'' StompClientError.kOk
          ''3f2504e0-4f89-41d3-9a0c-0305e82c3310'']"
proof -
  obtain payload where p:
    "ws subscribingClient
       = [WsConnect,
          WsSendSubscribe payload ''3f2504e0-4f89-41d3-9a0c-0305e82c3310'' sampleSubscription]"
    using subscribingClient_state(1) by blast
  have e: "subscriptions closingClient = Map.empty"
    by (simp add: closingClient_def Close_def call_ws_def)
  have c: "complete stompCodec 0 closingClient
             = OnWsSendSubscribe 0 ''3f2504e0-4f89-41d3-9a0c-0305e82c3310'' sampleSubscription
                 (closingClient\<lparr>completed := Suc (completed closingClient)\<rparr>)"
    by (simp add: complete_def closingClient_def Close_def call_ws_def p
          subscribingClient_state)
  have s: "subscriptions (complete stompCodec 0 closingClient)
             = [''3f2504e0-4f89-41d3-9a0c-0305e82c3310'' \<mapsto> sampleSubscription]"
    by (simp add: c OnWsSendSubscribe_def emplace_def e)
  have n: "\<not> noSubscribeSendSucceeds stompCodec [TransportCompletes 0] closingClient"
    by (simp add: closingClient_def Close_def call_ws_def p subscribingClient_state)
  have i: "invocations
       (HandleSubscriptionReceipt lateReceipt (complete stompCodec 0 closingClient))
       (posted (complete stompCodec 0 closingClient)
          (HandleSubscriptionReceipt lateReceipt (complete stompCodec 0 closingClient)))
     = [InvokeWith ''onSubscribe'' StompClientError.kOk
          ''3f2504e0-4f89-41d3-9a0c-0305e82c3310'']"
    by (simp add: HandleSubscriptionReceipt_def lateReceipt_def GetHeaderValue_def s
          effect_defs invocations_single call2_def sampleSubscription_def)
  from e n i show ?thesis by simp
qed

subsection \<open>Null handlers\<close>

text \<open>
  Claim C10. Running a task the client posted never calls an empty \<^verbatim>\<open>std::function\<close>,
  whatever the task and the client: a task whose handler is null calls nothing. The
  operations do not depend on the handlers being null: \<^verbatim>\<open>Connect\<close> with null handlers
  leaves the client as \<^verbatim>\<open>Connect\<close> with any handlers does, but for the two handler
  members; \<^verbatim>\<open>Close\<close> with a null handler clears the registry and makes the same
  transport call, carrying the null handler; \<^verbatim>\<open>Subscribe\<close> returns the same id, makes
  as many transport calls and posts as many tasks; \<^verbatim>\<open>OnWsConnect\<close> posts as many tasks;
  and the dispatch of a \<^verbatim>\<open>MESSAGE\<close> or a \<^verbatim>\<open>RECEIPT\<close> to a stored subscription posts
  exactly one task whether or not its handler is null.
\<close>

theorem null_handlers:
  fixes c :: "'h StompClient"
  shows
  "runTask c t \<noteq> Some BadFunctionCall
   \<and> runTask c (NotifyClose None e) = None
   \<and> runTask c (NotifySubscribe None e s) = None
   \<and> runTask c (NotifyMessage None e s) = None
   \<and> (onConnect c = None \<longrightarrow> runTask c (NotifyConnect e) = None)
   \<and> (onDisconnect c = None \<longrightarrow> runTask c (NotifyDisconnect e) = None)
   \<and> Connect user pass None None c
       = (Connect user pass hC hD c)\<lparr>onConnect := None, onDisconnect := None\<rparr>
   \<and> Close None c = (Close hClose c)\<lparr>ws := ws c @ [WsClose None]\<rparr>
   \<and> fst (Subscribe cd ep None None c) = fst (Subscribe cd ep hS hM c)
   \<and> length (called c (snd (Subscribe cd ep None None c)))
       = length (called c (snd (Subscribe cd ep hS hM c)))
   \<and> length (posted c (snd (Subscribe cd ep None None c)))
       = length (posted c (snd (Subscribe cd ep hS hM c)))
   \<and> length (posted c (OnWsConnect cd ec c))
       = length (posted (c\<lparr>onConnect := None\<rparr>) (OnWsConnect cd ec (c\<lparr>onConnect := None\<rparr>)))
   \<and> (\<forall>sub. subscriptions c (GetHeaderValue frame kSubscription) = Some sub \<longrightarrow>
         length (posted c (HandleSubscriptionMessage frame c)) = 1)
   \<and> (\<forall>sub. subscriptions c (GetHeaderValue frame kReceiptId) = Some sub \<longrightarrow>
         length (posted c (HandleSubscriptionReceipt frame c)) = 1)"
proof -
  have bad: "runTask c t \<noteq> Some BadFunctionCall"
    by (cases t) (auto simp: call1_def call2_def split: option.splits)
  have sub: "fst (Subscribe cd ep None None c) = fst (Subscribe cd ep hS hM c)"
    "length (called c (snd (Subscribe cd ep None None c)))
       = length (called c (snd (Subscribe cd ep hS hM c)))"
    "length (posted c (snd (Subscribe cd ep None None c)))
       = length (posted c (snd (Subscribe cd ep hS hM c)))"
    by (simp_all add: Subscribe_def GenerateId_def effect_defs split: prod.splits)
  have con: "length (posted c (OnWsConnect cd ec c))
       = length (posted (c\<lparr>onConnect := None\<rparr>) (OnWsConnect cd ec (c\<lparr>onConnect := None\<rparr>)))"
    by (simp add: OnWsConnect_def stompHeaders_def effect_defs split: prod.splits)
  show ?thesis
    using bad sub con
    by (simp add: Connect_def Close_def HandleSubscriptionMessage_def
          HandleSubscriptionReceipt_def effect_defs)
qed

theorem null_handlers_witness:
  "runTask freshClient
     (NotifyConnect kCouldNotConnectToWebSocketsServer) = None
   \<and> runTask freshClient
       (NotifyDisconnect kWebSocketsServerDisconnected) = None
   \<and> length (posted sampleClient (HandleSubscriptionMessage sampleMessage sampleClient)) = 1
   \<and> length (posted sampleClient (HandleSubscriptionReceipt sampleReceipt sampleClient)) = 1"
proof -
  have h: "onConnect freshClient = None"
    "onDisconnect freshClient = None"
    by (simp_all add: freshClient_def StompClient_new_def)
  have h1: "subscriptions sampleClient (GetHeaderValue sampleMessage kSubscription)
              = Some sampleSubscription"
    by (simp add: sample_defs)
  have h2: "subscriptions sampleClient (GetHeaderValue sampleReceipt kReceiptId)
              = Some sampleSubscription"
    by (simp add: sample_defs)
  note a = null_handlers
      [where c = freshClient
         and e = kCouldNotConnectToWebSocketsServer]
  note b = null_handlers
      [where c = freshClient
         and e = kWebSocketsServerDisconnected]
  note d = null_handlers
      [where c = sampleClient and frame = sampleMessage]
  note f = null_handlers
      [where c = sampleClient and frame = sampleReceipt]
  from a h have r1: "runTask freshClient
     (NotifyConnect kCouldNotConnectToWebSocketsServer) = None"
    by blast
  from b h have r2: "runTask freshClient
       (NotifyDisconnect kWebSocketsServerDisconnected) = None"
    by blast
  from d h1 have r3:
    "length (posted sampleClient (HandleSubscriptionMessage sampleMessage sampleClient)) = 1"
    by blast
  from f h2 have r4:
    "length (posted sampleClient (HandleSubscriptionReceipt sampleReceipt sampleClient)) = 1"
    by blast
  from r1 r2 r3 r4 show ?thesis by simp
qed

section \<open>Properties of the network monitor\<close>

lemma Configure_lastErrorCode:
  "lastErrorCode (snd (Configure env config m)) = lastErrorCode m"
  by (simp add: Configure_def monitor_error_def Let_def
        split: prod.splits option.splits bool.splits)

lemma beforeRun_lastErrorCode: "lastErrorCode (beforeRun env calls m) = lastErrorCode m"
  by (induction env calls m rule: beforeRun.induct)
     (simp_all add: Configure_lastErrorCode Stop_def)

text \<open>
  No handler of the monitor ever stores \<open>kOk\<close>: each leaves the last error code as it is
  or stores an error.
\<close>

lemma OnDisconnect_records: "lastErrorCode (OnDisconnect ec m) = kStompClientDisconnected"
  by (simp add: OnDisconnect_def monitor_error_def)

lemma handlers_keep_error:
  "lastErrorCode (OnConnect env ec m) = NetworkMonitorError.kOk
     \<Longrightarrow> lastErrorCode m = NetworkMonitorError.kOk"
  "lastErrorCode (OnSubscribe ec s m) = NetworkMonitorError.kOk
     \<Longrightarrow> lastErrorCode m = NetworkMonitorError.kOk"
  "lastErrorCode (OnMessage env ec s m) = NetworkMonitorError.kOk
     \<Longrightarrow> lastErrorCode m = NetworkMonitorError.kOk"
  by (auto simp: OnConnect_def OnSubscribe_def OnMessage_def monitor_error_def
        split: option.splits prod.splits if_splits)

lemma applyLambda_keeps_error:
  "lastErrorCode (applyLambda env i m) = NetworkMonitorError.kOk
     \<Longrightarrow> lastErrorCode m = NetworkMonitorError.kOk"
  by (induction env i m rule: applyLambda.induct)
     (auto dest: handlers_keep_error simp: OnDisconnect_records)

lemma step_keeps_error:
  "lastErrorCode (step env ev m) = NetworkMonitorError.kOk
     \<Longrightarrow> lastErrorCode m = NetworkMonitorError.kOk"
  by (cases ev)
     (auto simp: onClient_def runStrandTask_def Stop_def Let_def
        split: option.splits list.splits dest: applyLambda_keeps_error)

lemma ioc_run_keeps_error:
  "lastErrorCode (ioc_run env evs m) = NetworkMonitorError.kOk
     \<Longrightarrow> lastErrorCode m = NetworkMonitorError.kOk"
  by (induction evs arbitrary: m) (auto split: if_splits dest: step_keeps_error)

lemma ioc_run_append: "ioc_run env (xs @ ys) m = ioc_run env ys (ioc_run env xs m)"
proof (induction xs arbitrary: m)
  case Nil
  show ?case by simp
next
  case (Cons x xs)
  show ?case
  proof (cases "ioc_stopped m")
    case True
    then show ?thesis by (cases ys) simp_all
  next
    case False
    then show ?thesis by (simp add: Cons.IH)
  qed
qed

lemma ioc_run_prefix:
  assumes "lastErrorCode (ioc_run env evs m) = NetworkMonitorError.kOk"
  shows "lastErrorCode (ioc_run env (take k evs) m) = NetworkMonitorError.kOk"
proof -
  have "ioc_run env evs m = ioc_run env (drop k evs) (ioc_run env (take k evs) m)"
    using ioc_run_append [of env "take k evs" "drop k evs" m] by simp
  with assms show ?thesis by (auto dest: ioc_run_keeps_error)
qed

lemma compactDecoder_rejects: "compactDecoder ''Not a valid JSON payload {}[]--.'' = None"
  by (simp add: compactDecoder_def)

lemma compactDecoder_accepts:
  "compactDecoder (eventPayload ''2020-11-01T07:18:50.234000Z'' ''in'' ''station_0'')
     = Some \<lparr>stationId = ''station_0'', eventType = PassengerIn,
             timestamp = ''2020-11-01T07:18:50.234000Z''\<rparr>"
  by (simp add: compactDecoder_def eventPayload_def DQUOTE_def)

lemma monitorWith_eq:
  "monitorWith payloads
     = \<lparr>ioc_stopped = False,
        client = Some
          ((Connect ''some_username'' ''some_password_123'' (Some LambdaOnConnect)
              (Some LambdaOnDisconnect)
              (StompClient_new ''ltnm.learncppthroughprojects.com'' ''/network-events'' ''443''
                 sampleUuids))
             \<lparr>strand := map (NotifyMessage (Some LambdaOnMessage) StompClientError.kOk)
                            payloads\<rparr>),
        network = sampleNetwork,
        lastErrorCode = NetworkMonitorError.kUndefinedError,
        monitor_log = []\<rparr>"
  by (simp add: monitorWith_def Configure_def sampleEnv_def sampleConfig_def
        NetworkMonitor_new_def onClient_def networkEventsEndpoint_def)

text \<open>
  What a handler does to the last error code does not depend on the code it finds: it
  stores an error, the same one whatever the code was, or leaves the code as it is. So
  handling an event from a monitor that holds \<open>kOk\<close> tells which error the event
  records, and the code after a run is the last error recorded, or the code the run
  started with.
\<close>

lemma OnConnect_code:
  "OnConnect env ec (m\<lparr>lastErrorCode := x\<rparr>)
     = (OnConnect env ec m)
         \<lparr>lastErrorCode :=
            (if lastErrorCode (OnConnect env ec (m\<lparr>lastErrorCode := NetworkMonitorError.kOk\<rparr>))
                = NetworkMonitorError.kOk
             then x
             else lastErrorCode
                    (OnConnect env ec (m\<lparr>lastErrorCode := NetworkMonitorError.kOk\<rparr>)))\<rparr>"
  by (auto simp: OnConnect_def monitor_error_def split: option.splits prod.splits)

lemma OnDisconnect_code:
  "OnDisconnect ec (m\<lparr>lastErrorCode := x\<rparr>)
     = (OnDisconnect ec m)
         \<lparr>lastErrorCode :=
            (if lastErrorCode (OnDisconnect ec (m\<lparr>lastErrorCode := NetworkMonitorError.kOk\<rparr>))
                = NetworkMonitorError.kOk
             then x
             else lastErrorCode
                    (OnDisconnect ec (m\<lparr>lastErrorCode := NetworkMonitorError.kOk\<rparr>)))\<rparr>"
  by (auto simp: OnDisconnect_def monitor_error_def)

lemma OnSubscribe_code:
  "OnSubscribe ec s (m\<lparr>lastErrorCode := x\<rparr>)
     = (OnSubscribe ec s m)
         \<lparr>lastErrorCode :=
            (if lastErrorCode (OnSubscribe ec s (m\<lparr>lastErrorCode := NetworkMonitorError.kOk\<rparr>))
                = NetworkMonitorError.kOk
             then x
             else lastErrorCode
                    (OnSubscribe ec s (m\<lparr>lastErrorCode := NetworkMonitorError.kOk\<rparr>)))\<rparr>"
  by (auto simp: OnSubscribe_def monitor_error_def)

lemma OnMessage_code:
  "OnMessage env ec s (m\<lparr>lastErrorCode := x\<rparr>)
     = (OnMessage env ec s m)
         \<lparr>lastErrorCode :=
            (if lastErrorCode (OnMessage env ec s (m\<lparr>lastErrorCode := NetworkMonitorError.kOk\<rparr>))
                = NetworkMonitorError.kOk
             then x
             else lastErrorCode
                    (OnMessage env ec s (m\<lparr>lastErrorCode := NetworkMonitorError.kOk\<rparr>)))\<rparr>"
  by (auto simp: OnMessage_def monitor_error_def split: option.splits prod.splits)

lemma applyLambda_code:
  "applyLambda env i (m\<lparr>lastErrorCode := x\<rparr>)
     = (applyLambda env i m)
         \<lparr>lastErrorCode :=
            (if lastErrorCode (applyLambda env i (m\<lparr>lastErrorCode := NetworkMonitorError.kOk\<rparr>))
                = NetworkMonitorError.kOk
             then x
             else lastErrorCode
                    (applyLambda env i (m\<lparr>lastErrorCode := NetworkMonitorError.kOk\<rparr>)))\<rparr>"
proof (induction env i m rule: applyLambda.induct)
  case (1 env ec m)
  show ?case
    using OnConnect_code [where env = env and ec = ec and m = m and x = x] by simp
next
  case (2 env ec m)
  show ?case
    using OnDisconnect_code [where ec = ec and m = m and x = x] by simp
next
  case (3 env ec s m)
  show ?case
    using OnSubscribe_code [where ec = ec and s = s and m = m and x = x] by simp
next
  case (4 env ec s m)
  show ?case
    using OnMessage_code [where env = env and ec = ec and s = s and m = m and x = x]
    by simp
qed simp_all

lemma runStrandTask_code:
  "runStrandTask env (m\<lparr>lastErrorCode := x\<rparr>)
     = (runStrandTask env m)
         \<lparr>lastErrorCode :=
            (if lastErrorCode (runStrandTask env (m\<lparr>lastErrorCode := NetworkMonitorError.kOk\<rparr>))
                = NetworkMonitorError.kOk
             then x
             else lastErrorCode
                    (runStrandTask env (m\<lparr>lastErrorCode := NetworkMonitorError.kOk\<rparr>)))\<rparr>"
proof (cases "client m")
  case None
  then show ?thesis by (simp add: runStrandTask_def)
next
  case (Some c)
  show ?thesis
  proof (cases "strand c")
    case Nil
    with Some show ?thesis by (simp add: runStrandTask_def)
  next
    case (Cons t ts)
    show ?thesis
    proof (cases "runTask c t")
      case None
      with Some Cons show ?thesis by (simp add: runStrandTask_def)
    next
      case (Some i)
      have u: "m\<lparr>lastErrorCode := y, client := Some (c\<lparr>strand := ts\<rparr>)\<rparr>
                 = (m\<lparr>client := Some (c\<lparr>strand := ts\<rparr>)\<rparr>)\<lparr>lastErrorCode := y\<rparr>" for y
        by simp
      from \<open>client m = Some c\<close> Cons Some show ?thesis
        using applyLambda_code
          [where env = env and i = i and m = "m\<lparr>client := Some (c\<lparr>strand := ts\<rparr>)\<rparr>"
             and x = x]
        by (simp add: runStrandTask_def u)
    qed
  qed
qed

lemma step_code:
  "step env ev (m\<lparr>lastErrorCode := x\<rparr>)
     = (step env ev m)
         \<lparr>lastErrorCode := (case recordedBy env ev m of None \<Rightarrow> x | Some code \<Rightarrow> code)\<rparr>"
proof (cases ev)
  case StrandTask
  then show ?thesis
    using runStrandTask_code [where env = env and m = m and x = x] by (simp add: recordedBy_def)
qed (auto simp: recordedBy_def onClient_def Stop_def split: option.splits)

lemma step_lastErrorCode:
  "lastErrorCode (step env ev m)
     = (case recordedBy env ev m of None \<Rightarrow> lastErrorCode m | Some code \<Rightarrow> code)"
  using step_code [where env = env and ev = ev and m = m and x = "lastErrorCode m"]
  by (metis (no_types, lifting) NetworkMonitor.select_convs(4) NetworkMonitor.surjective
        NetworkMonitor.update_convs(4))

lemma recordedBy_ignores_code:
  "recordedBy env ev (m\<lparr>lastErrorCode := x\<rparr>) = recordedBy env ev m"
  by (simp add: recordedBy_def)

lemma recordedBy_not_kOk: "recordedBy env ev m \<noteq> Some NetworkMonitorError.kOk"
  by (simp add: recordedBy_def Let_def)

lemma recordedDuring_not_kOk: "NetworkMonitorError.kOk \<notin> set (recordedDuring env evs m)"
  by (induction evs arbitrary: m)
     (auto simp: recordedBy_not_kOk recordedBy_not_kOk [symmetric] split: option.splits)

lemma recordedDuring_ignores_code:
  "recordedDuring env evs (m\<lparr>lastErrorCode := x\<rparr>) = recordedDuring env evs m"
proof (induction evs arbitrary: m x)
  case Nil
  show ?case by simp
next
  case (Cons ev evs)
  show ?case
    by (simp add: recordedBy_ignores_code step_code Cons.IH)
qed

lemma ioc_run_code:
  "ioc_run env evs (m\<lparr>lastErrorCode := x\<rparr>)
     = (ioc_run env evs m)
         \<lparr>lastErrorCode :=
            (case recordedDuring env evs m of [] \<Rightarrow> x | code # codes \<Rightarrow> last (code # codes))\<rparr>"
proof (induction evs arbitrary: m x)
  case Nil
  show ?case by simp
next
  case (Cons ev evs)
  show ?case
  proof (cases "ioc_stopped m")
    case True
    then show ?thesis by simp
  next
    case False
    then show ?thesis
      by (cases "recordedBy env ev m"; cases "recordedDuring env evs (step env ev m)")
         (simp_all add: step_code Cons.IH)
  qed
qed

lemma ioc_run_lastErrorCode:
  "lastErrorCode (ioc_run env evs (m\<lparr>lastErrorCode := x\<rparr>))
     = (case recordedDuring env evs m of [] \<Rightarrow> x | code # codes \<Rightarrow> last (code # codes))"
  by (simp add: ioc_run_code)

subsection \<open>Payloads that do not parse\<close>

text \<open>
  Claim C8. For every payload that cannot be parsed into a passenger event,
  \<^verbatim>\<open>OnMessage\<close> records \<open>kCouldNotParsePassengerEvent\<close> as the last error code and logs
  the error; the network is the one from before, so every station has the passenger
  count it had; the \<^verbatim>\<open>io_context\<close> is not stopped and the client is not touched (no
  \<^verbatim>\<open>Close\<close>). In the event loop: when the task at the head of the strand delivers such
  a payload to the monitor and the loop is running, the loop handles it and goes on with
  the remaining events, from a monitor that is still not stopped.
\<close>

theorem unparsable_event:
  "parsePassengerEvent env msg = None \<longrightarrow>
     GetLastErrorCode (OnMessage env ec msg m) = kCouldNotParsePassengerEvent \<and>
     GetNetworkRepresentation (OnMessage env ec msg m) = GetNetworkRepresentation m \<and>
     (\<forall>sid. GetPassengerCount (GetNetworkRepresentation (OnMessage env ec msg m)) sid
            = GetPassengerCount (GetNetworkRepresentation m) sid) \<and>
     ioc_stopped (OnMessage env ec msg m) = ioc_stopped m \<and>
     client (OnMessage env ec msg m) = client m \<and>
     monitor_log (OnMessage env ec msg m)
       = monitor_log m @ [''NetworkMonitor: Could not parse passenger event: {}{}''] \<and>
     (\<forall>c ts evs. client m = Some c \<and> \<not> ioc_stopped m
         \<and> strand c = NotifyMessage (Some LambdaOnMessage) ec msg # ts \<longrightarrow>
        ioc_run env (StrandTask # evs) m
          = ioc_run env evs (OnMessage env ec msg (m\<lparr>client := Some (c\<lparr>strand := ts\<rparr>)\<rparr>))
        \<and> \<not> ioc_stopped (OnMessage env ec msg (m\<lparr>client := Some (c\<lparr>strand := ts\<rparr>)\<rparr>)))"
  by (auto simp: OnMessage_def GetLastErrorCode_def GetNetworkRepresentation_def
        monitor_error_def runStrandTask_def call2_def)

text \<open>
  The monitor of the tests, with two payloads waiting: one that is no JSON and a
  passenger entering \<^verbatim>\<open>station_0\<close>. After the loop has run both tasks the error of the
  first is the last error code and the second event was counted.
\<close>

theorem unparsable_event_witness:
  "parsePassengerEvent sampleEnv ''Not a valid JSON payload {}[]--.'' = None
   \<and> GetLastErrorCode
       (OnMessage sampleEnv StompClientError.kOk ''Not a valid JSON payload {}[]--.''
          (monitorWith [''Not a valid JSON payload {}[]--.'']))
       = kCouldNotParsePassengerEvent
   \<and> GetPassengerCount
       (GetNetworkRepresentation
          (OnMessage sampleEnv StompClientError.kOk ''Not a valid JSON payload {}[]--.''
             (monitorWith [''Not a valid JSON payload {}[]--.''])))
       ''station_0'' = Some 0
   \<and> GetLastErrorCode
       (ioc_run sampleEnv [StrandTask, StrandTask]
          (monitorWith
             [''Not a valid JSON payload {}[]--.'',
              eventPayload ''2020-11-01T07:18:50.234000Z'' ''in'' ''station_0'']))
       = kCouldNotParsePassengerEvent
   \<and> GetPassengerCount
       (GetNetworkRepresentation
          (ioc_run sampleEnv [StrandTask, StrandTask]
             (monitorWith
                [''Not a valid JSON payload {}[]--.'',
                 eventPayload ''2020-11-01T07:18:50.234000Z'' ''in'' ''station_0''])))
       ''station_0'' = Some 1"
proof -
  let ?bad = "''Not a valid JSON payload {}[]--.''"
  let ?good = "eventPayload ''2020-11-01T07:18:50.234000Z'' ''in'' ''station_0''"
  let ?c = "Connect ''some_username'' ''some_password_123'' (Some LambdaOnConnect)
              (Some LambdaOnDisconnect)
              (StompClient_new ''ltnm.learncppthroughprojects.com'' ''/network-events'' ''443''
                 sampleUuids)"
  have h: "parsePassengerEvent sampleEnv ?bad = None"
    by (simp add: sampleEnv_def compactDecoder_rejects)
  note r1 = unparsable_event
      [where env = sampleEnv and msg = ?bad and ec = StompClientError.kOk
         and m = "monitorWith [?bad]", THEN mp, OF h]
  note r2 = unparsable_event
      [where env = sampleEnv and msg = ?bad and ec = StompClientError.kOk
         and m = "monitorWith [?bad, ?good]", THEN mp, OF h]
  have n: "GetPassengerCount (GetNetworkRepresentation (monitorWith [?bad])) ''station_0''
             = Some 0"
    by (simp add: monitorWith_eq GetNetworkRepresentation_def GetPassengerCount_def
          sampleNetwork_def)
  from r1 n
  have one: "GetLastErrorCode (OnMessage sampleEnv StompClientError.kOk ?bad
                                 (monitorWith [?bad])) = kCouldNotParsePassengerEvent
             \<and> GetPassengerCount
                 (GetNetworkRepresentation
                    (OnMessage sampleEnv StompClientError.kOk ?bad (monitorWith [?bad])))
                 ''station_0'' = Some 0"
    by auto
  have pre: "client (monitorWith [?bad, ?good])
               = Some (?c\<lparr>strand := [NotifyMessage (Some LambdaOnMessage)
                                         StompClientError.kOk ?bad,
                                       NotifyMessage (Some LambdaOnMessage)
                                         StompClientError.kOk ?good]\<rparr>)
             \<and> \<not> ioc_stopped (monitorWith [?bad, ?good])
             \<and> strand (?c\<lparr>strand := [NotifyMessage (Some LambdaOnMessage)
                                         StompClientError.kOk ?bad,
                                       NotifyMessage (Some LambdaOnMessage)
                                         StompClientError.kOk ?good]\<rparr>)
                 = NotifyMessage (Some LambdaOnMessage) StompClientError.kOk ?bad
                   # [NotifyMessage (Some LambdaOnMessage) StompClientError.kOk ?good]"
    by (simp add: monitorWith_eq)
  note l = r2 [THEN conjunct2, THEN conjunct2, THEN conjunct2, THEN conjunct2,
      THEN conjunct2, THEN conjunct2, rule_format, OF pre, THEN conjunct1]
  have loop: "ioc_run sampleEnv [StrandTask, StrandTask] (monitorWith [?bad, ?good])
     = ioc_run sampleEnv [StrandTask]
         (OnMessage sampleEnv StompClientError.kOk ?bad
            ((monitorWith [?bad, ?good])
               \<lparr>client := Some (?c\<lparr>strand := [NotifyMessage (Some LambdaOnMessage)
                                                  StompClientError.kOk ?good]\<rparr>)\<rparr>))"
    using l by simp
  have rest: "ioc_run sampleEnv [StrandTask]
         (OnMessage sampleEnv StompClientError.kOk ?bad
            ((monitorWith [?bad, ?good])
               \<lparr>client := Some (?c\<lparr>strand := [NotifyMessage (Some LambdaOnMessage)
                                                  StompClientError.kOk ?good]\<rparr>)\<rparr>))
     = \<lparr>ioc_stopped = False,
        client = Some (?c\<lparr>strand := []\<rparr>),
        network =
          \<lparr>stations = [''station_0'' \<mapsto> \<lparr>stationName = ''Station 0'', passengerCount = 1\<rparr>,
                       ''station_1'' \<mapsto> \<lparr>stationName = ''Station 1'', passengerCount = 0\<rparr>]\<rparr>,
        lastErrorCode = kCouldNotParsePassengerEvent,
        monitor_log = [''NetworkMonitor: Could not parse passenger event: {}{}'']\<rparr>"
    by (simp add: monitorWith_eq OnMessage_def sampleEnv_def compactDecoder_rejects
          compactDecoder_accepts monitor_error_def runStrandTask_def call2_def
          TransportNetwork_RecordPassengerEvent_def sampleNetwork_def Connect_def
          call_ws_def StompClient_new_def fun_upd_twist)
  from h one show ?thesis
    unfolding loop rest
    by (simp add: GetLastErrorCode_def GetNetworkRepresentation_def GetPassengerCount_def)
qed

subsection \<open>The last error code\<close>

text \<open>
  Claim C9. \<^verbatim>\<open>GetLastErrorCode\<close> is \<open>kUndefinedError\<close> on a new monitor, and still is
  after any calls of \<^verbatim>\<open>Configure\<close> and \<^verbatim>\<open>Stop\<close> made before the monitor runs.
  \<^verbatim>\<open>Run()\<close> and \<^verbatim>\<open>Run(runFor)\<close> store \<open>kOk\<close> before the loop handles anything: with
  nothing to handle the code is \<open>kOk\<close> afterwards, and the outcome of a run does not
  depend on the code the monitor held before. No handler stores \<open>kOk\<close>, so when the
  code is \<open>kOk\<close> after a run it was \<open>kOk\<close> after every prefix of the events handled: no
  error was recorded during the run. \<^verbatim>\<open>Stop()\<close> leaves the code as it is.

  The reset comes first and the loop after it. Handling one event leaves the code as it
  was or stores the error the event records, which is never \<open>kOk\<close>. After \<^verbatim>\<open>Run()\<close> the
  code is therefore the last error recorded while the loop handled the events, and
  \<open>kOk\<close> exactly when none was recorded; after \<^verbatim>\<open>Run(runFor)\<close> the same holds of the
  events the loop handled within the time allowed. A reset made after the loop would
  give \<open>kOk\<close> whatever was recorded, and a run that skipped the loop would record
  nothing. Apart from the code, a run leaves the monitor as the loop alone leaves it.
\<close>

theorem last_error_code:
  "GetLastErrorCode NetworkMonitor_new = NetworkMonitorError.kUndefinedError
   \<and> GetLastErrorCode (beforeRun env calls NetworkMonitor_new)
       = NetworkMonitorError.kUndefinedError
   \<and> GetLastErrorCode (Run env [] m) = NetworkMonitorError.kOk
   \<and> GetLastErrorCode (RunFor env n [] m) = NetworkMonitorError.kOk
   \<and> Run env evs (m\<lparr>lastErrorCode := e\<rparr>) = Run env evs m
   \<and> RunFor env n evs (m\<lparr>lastErrorCode := e\<rparr>) = RunFor env n evs m
   \<and> (GetLastErrorCode (Run env evs m) = NetworkMonitorError.kOk \<longrightarrow>
        (\<forall>k. GetLastErrorCode (Run env (take k evs) m) = NetworkMonitorError.kOk))
   \<and> (GetLastErrorCode (RunFor env n evs m) = NetworkMonitorError.kOk \<longrightarrow>
        (\<forall>k. GetLastErrorCode (RunFor env n (take k evs) m) = NetworkMonitorError.kOk))
   \<and> GetLastErrorCode (Stop m) = GetLastErrorCode m
   \<and> GetLastErrorCode (step env ev m)
       = (case recordedBy env ev m of None \<Rightarrow> GetLastErrorCode m | Some code \<Rightarrow> code)
   \<and> NetworkMonitorError.kOk \<notin> set (recordedDuring env evs m)
   \<and> GetLastErrorCode (Run env evs m)
       = (case recordedDuring env evs m of [] \<Rightarrow> NetworkMonitorError.kOk
          | code # codes \<Rightarrow> last (code # codes))
   \<and> GetLastErrorCode (RunFor env n evs m)
       = (case recordedDuring env (take n evs) m of [] \<Rightarrow> NetworkMonitorError.kOk
          | code # codes \<Rightarrow> last (code # codes))
   \<and> (GetLastErrorCode (Run env evs m) = NetworkMonitorError.kOk
        \<longleftrightarrow> recordedDuring env evs m = [])
   \<and> (GetLastErrorCode (RunFor env n evs m) = NetworkMonitorError.kOk
        \<longleftrightarrow> recordedDuring env (take n evs) m = [])
   \<and> (Run env evs m)\<lparr>lastErrorCode := e\<rparr> = (ioc_run env evs m)\<lparr>lastErrorCode := e\<rparr>
   \<and> (RunFor env n evs m)\<lparr>lastErrorCode := e\<rparr>
       = (ioc_run env (take n evs) m)\<lparr>lastErrorCode := e\<rparr>"
proof -
  have pre: "GetLastErrorCode (Run env evs m) = NetworkMonitorError.kOk \<longrightarrow>
        (\<forall>k. GetLastErrorCode (Run env (take k evs) m) = NetworkMonitorError.kOk)"
    by (auto simp: GetLastErrorCode_def Run_def intro: ioc_run_prefix)
  have pre': "GetLastErrorCode (RunFor env n evs m) = NetworkMonitorError.kOk \<longrightarrow>
        (\<forall>k. GetLastErrorCode (RunFor env n (take k evs) m) = NetworkMonitorError.kOk)"
  proof (intro impI allI)
    fix k
    assume "GetLastErrorCode (RunFor env n evs m) = NetworkMonitorError.kOk"
    then have "lastErrorCode (ioc_run env (take k (take n evs))
                 (m\<lparr>lastErrorCode := NetworkMonitorError.kOk\<rparr>)) = NetworkMonitorError.kOk"
      unfolding GetLastErrorCode_def RunFor_def by (rule ioc_run_prefix)
    moreover have "take k (take n evs) = take n (take k evs)"
      by (simp add: take_take min.commute)
    ultimately show "GetLastErrorCode (RunFor env n (take k evs) m) = NetworkMonitorError.kOk"
      by (simp add: GetLastErrorCode_def RunFor_def)
  qed
  have old: "GetLastErrorCode NetworkMonitor_new = NetworkMonitorError.kUndefinedError
   \<and> GetLastErrorCode (beforeRun env calls NetworkMonitor_new)
       = NetworkMonitorError.kUndefinedError
   \<and> GetLastErrorCode (Run env [] m) = NetworkMonitorError.kOk
   \<and> GetLastErrorCode (RunFor env n [] m) = NetworkMonitorError.kOk
   \<and> Run env evs (m\<lparr>lastErrorCode := e\<rparr>) = Run env evs m
   \<and> RunFor env n evs (m\<lparr>lastErrorCode := e\<rparr>) = RunFor env n evs m
   \<and> GetLastErrorCode (Stop m) = GetLastErrorCode m"
    by (simp add: GetLastErrorCode_def beforeRun_lastErrorCode Run_def RunFor_def Stop_def)
       (simp add: NetworkMonitor_new_def)
  have one: "GetLastErrorCode (step env ev m)
       = (case recordedBy env ev m of None \<Rightarrow> GetLastErrorCode m | Some code \<Rightarrow> code)"
    by (simp add: GetLastErrorCode_def step_lastErrorCode split: option.splits)
  have none: "NetworkMonitorError.kOk \<notin> set (recordedDuring env evs m)" for evs
    by (rule recordedDuring_not_kOk)
  have run: "GetLastErrorCode (Run env evs m)
       = (case recordedDuring env evs m of [] \<Rightarrow> NetworkMonitorError.kOk
          | code # codes \<Rightarrow> last (code # codes))" for evs
    by (simp add: GetLastErrorCode_def Run_def ioc_run_lastErrorCode)
  have runFor: "GetLastErrorCode (RunFor env n evs m)
       = (case recordedDuring env (take n evs) m of [] \<Rightarrow> NetworkMonitorError.kOk
          | code # codes \<Rightarrow> last (code # codes))"
    by (simp add: GetLastErrorCode_def RunFor_def ioc_run_lastErrorCode)
  have last_in: "last (code # codes) \<noteq> NetworkMonitorError.kOk"
    if "recordedDuring env evs m = code # codes" for evs code codes
    using none [of evs] last_in_set [of "code # codes"] that by (metis list.discI)
  have iff: "GetLastErrorCode (Run env evs m) = NetworkMonitorError.kOk
        \<longleftrightarrow> recordedDuring env evs m = []" for evs
    by (cases "recordedDuring env evs m") (simp_all add: run last_in del: last.simps)
  have iff': "GetLastErrorCode (RunFor env n evs m) = NetworkMonitorError.kOk
        \<longleftrightarrow> recordedDuring env (take n evs) m = []"
    by (cases "recordedDuring env (take n evs) m")
       (simp_all add: runFor last_in del: last.simps)
  have rest: "(Run env evs m)\<lparr>lastErrorCode := e\<rparr> = (ioc_run env evs m)\<lparr>lastErrorCode := e\<rparr>"
    by (simp add: Run_def ioc_run_code)
  have rest': "(RunFor env n evs m)\<lparr>lastErrorCode := e\<rparr>
       = (ioc_run env (take n evs) m)\<lparr>lastErrorCode := e\<rparr>"
    by (simp add: RunFor_def ioc_run_code)
  from old pre pre' one none [of evs] run [of evs] runFor iff [of evs] iff' rest rest'
  show ?thesis by blast
qed

text \<open>
  On the monitor of the tests: the code is \<open>kUndefinedError\<close> after \<^verbatim>\<open>Configure\<close> and
  \<^verbatim>\<open>Stop\<close>; a run that handles one good passenger event ends with \<open>kOk\<close>, as does its
  empty prefix; handling a payload that is no JSON records
  \<open>kCouldNotParsePassengerEvent\<close>, and that is the code after \<^verbatim>\<open>Run()\<close> and after a
  \<^verbatim>\<open>Run(runFor)\<close> that gets to the event, while a \<^verbatim>\<open>Run(runFor)\<close> that does not get to it
  ends with \<open>kOk\<close>.
\<close>

theorem last_error_code_witness:
  "GetLastErrorCode (beforeRun sampleEnv [CallConfigure sampleConfig, CallStop]
                       NetworkMonitor_new) = NetworkMonitorError.kUndefinedError
   \<and> GetLastErrorCode
       (Run sampleEnv [StrandTask]
          (monitorWith [eventPayload ''2020-11-01T07:18:50.234000Z'' ''in'' ''station_0'']))
       = NetworkMonitorError.kOk
   \<and> GetLastErrorCode
       (Run sampleEnv (take 0 [StrandTask])
          (monitorWith [eventPayload ''2020-11-01T07:18:50.234000Z'' ''in'' ''station_0'']))
       = NetworkMonitorError.kOk
   \<and> GetLastErrorCode
       (Run sampleEnv [StrandTask] (monitorWith [''Not a valid JSON payload {}[]--.'']))
       \<noteq> NetworkMonitorError.kOk
   \<and> recordedDuring sampleEnv [StrandTask] (monitorWith [''Not a valid JSON payload {}[]--.''])
       = [kCouldNotParsePassengerEvent]
   \<and> GetLastErrorCode
       (Run sampleEnv [StrandTask] (monitorWith [''Not a valid JSON payload {}[]--.'']))
       = kCouldNotParsePassengerEvent
   \<and> GetLastErrorCode
       (RunFor sampleEnv 1 [StrandTask] (monitorWith [''Not a valid JSON payload {}[]--.'']))
       = kCouldNotParsePassengerEvent
   \<and> GetLastErrorCode
       (RunFor sampleEnv 0 [StrandTask] (monitorWith [''Not a valid JSON payload {}[]--.'']))
       = NetworkMonitorError.kOk"
proof -
  let ?good = "eventPayload ''2020-11-01T07:18:50.234000Z'' ''in'' ''station_0''"
  let ?bad = "''Not a valid JSON payload {}[]--.''"
  note r = last_error_code
      [where env = sampleEnv and calls = "[CallConfigure sampleConfig, CallStop]"
         and evs = "[StrandTask]" and m = "monitorWith [?good]"]
  have ok: "GetLastErrorCode (Run sampleEnv [StrandTask] (monitorWith [?good]))
              = NetworkMonitorError.kOk"
    by (simp add: Run_def GetLastErrorCode_def monitorWith_eq OnMessage_def sampleEnv_def
          compactDecoder_accepts runStrandTask_def call2_def
          TransportNetwork_RecordPassengerEvent_def sampleNetwork_def)
  from r ok have first:
    "GetLastErrorCode (beforeRun sampleEnv [CallConfigure sampleConfig, CallStop]
                       NetworkMonitor_new) = NetworkMonitorError.kUndefinedError
     \<and> GetLastErrorCode (Run sampleEnv (take 0 [StrandTask]) (monitorWith [?good]))
         = NetworkMonitorError.kOk"
    by blast
  have rec: "recordedDuring sampleEnv [StrandTask] (monitorWith [?bad])
               = [kCouldNotParsePassengerEvent]"
    by (simp add: recordedBy_def monitorWith_eq OnMessage_def sampleEnv_def
          compactDecoder_rejects runStrandTask_def call2_def monitor_error_def)
  have rec0: "recordedDuring sampleEnv (take 0 [StrandTask]) (monitorWith [?bad]) = []"
    by simp
  have rec1: "recordedDuring sampleEnv (take 1 [StrandTask]) (monitorWith [?bad])
               = [kCouldNotParsePassengerEvent]"
    using rec by simp
  note s = last_error_code
      [where env = sampleEnv and evs = "[StrandTask]" and m = "monitorWith [?bad]"]
  note s1 = last_error_code
      [where env = sampleEnv and evs = "[StrandTask]" and m = "monitorWith [?bad]" and n = 1]
  note s0 = last_error_code
      [where env = sampleEnv and evs = "[StrandTask]" and m = "monitorWith [?bad]" and n = 0]
  from s rec have bad:
    "GetLastErrorCode (Run sampleEnv [StrandTask] (monitorWith [?bad]))
       = kCouldNotParsePassengerEvent"
    by simp
  from s1 rec1 have bad1:
    "GetLastErrorCode (RunFor sampleEnv 1 [StrandTask] (monitorWith [?bad]))
       = kCouldNotParsePassengerEvent"
    by simp
  from s0 rec0 have bad0:
    "GetLastErrorCode (RunFor sampleEnv 0 [StrandTask] (monitorWith [?bad]))
       = NetworkMonitorError.kOk"
    by simp
  from first ok rec bad bad1 bad0 show ?thesis by simp
qed

end
